theory Spec2Isabelle
  imports Complex_Main "HOL-Library.AList"
begin

unbundle bit_operations_syntax

section \<open>Python values, dictionaries and errors\<close>

text \<open>
  The events handled by the pipeline are Python dictionaries with string keys whose values
  are strings, numbers, booleans, \<^verbatim>\<open>None\<close>, nested dictionaries or lists. Python floats are
  idealised as reals: the code only compares and stores them.
\<close>

datatype pyval =
    PNone
  | PBool bool
  | PInt int
  | PFloat real
  | PStr string
  | PDict "(string \<times> pyval) list"
  | PList "pyval list"

type_synonym pydict = "(string \<times> pyval) list"

datatype py_error =
  AttributeError | IndexError | KeyError | TypeError | ValueError | UnicodeEncodeError

text \<open>\<^verbatim>\<open>bool(v)\<close>: the truth value Python gives a value in \<^verbatim>\<open>if v\<close> and \<^verbatim>\<open>a or b\<close>.\<close>

fun truthy :: "pyval \<Rightarrow> bool" where
  "truthy PNone = False"
| "truthy (PBool b) = b"
| "truthy (PInt i) = (i \<noteq> 0)"
| "truthy (PFloat r) = (r \<noteq> 0)"
| "truthy (PStr s) = (s \<noteq> [])"
| "truthy (PDict kvs) = (kvs \<noteq> [])"
| "truthy (PList xs) = (xs \<noteq> [])"

text \<open>\<^verbatim>\<open>d.get(k, default)\<close> on a dictionary.\<close>

definition dict_get :: "pydict \<Rightarrow> string \<Rightarrow> pyval \<Rightarrow> pyval" where
  "dict_get d k dflt = (case map_of d k of None \<Rightarrow> dflt | Some v \<Rightarrow> v)"

text \<open>\<^verbatim>\<open>k in d\<close> on a dictionary.\<close>

definition dict_has :: "pydict \<Rightarrow> string \<Rightarrow> bool" where
  "dict_has d k = (map_of d k \<noteq> None)"

text \<open>
  \<^verbatim>\<open>v.get(k, default)\<close> on an arbitrary value: only a dictionary has the method, every
  other value raises AttributeError.
\<close>

fun attr_get :: "pyval \<Rightarrow> string \<Rightarrow> pyval \<Rightarrow> py_error + pyval" where
  "attr_get (PDict kvs) k dflt = Inr (dict_get kvs k dflt)"
| "attr_get _ k dflt = Inl AttributeError"

text \<open>\<^verbatim>\<open>xs[i]\<close> on a list: a negative index counts from the end, out of range raises.\<close>

definition py_index :: "'a list \<Rightarrow> int \<Rightarrow> py_error + 'a" where
  "py_index xs i =
     (if 0 \<le> i \<and> i < int (length xs) then Inr (xs ! nat i)
      else if i < 0 \<and> - int (length xs) \<le> i then Inr (xs ! nat (int (length xs) + i))
      else Inl IndexError)"

text \<open>\<^verbatim>\<open>d.update(e)\<close>: a key already present keeps its position, a new key is appended.\<close>

definition dict_update :: "('k \<times> 'v) list \<Rightarrow> ('k \<times> 'v) list \<Rightarrow> ('k \<times> 'v) list" where
  "dict_update d e = foldl (\<lambda>acc (k, v). AList.update k v acc) d e"

text \<open>The keys of a dictionary after \<^verbatim>\<open>update\<close>, from the keys before and the keys merged in.\<close>

definition keys_update :: "'k list \<Rightarrow> 'k list \<Rightarrow> 'k list" where
  "keys_update ks es = foldl (\<lambda>acc k. if k \<in> set acc then acc else acc @ [k]) ks es"

text \<open>\<^verbatim>\<open>str(n)\<close> for a non-negative integer: its decimal digits.\<close>

definition digit_char :: "nat \<Rightarrow> char" where
  "digit_char d = ''0123456789'' ! d"

fun str_nat :: "nat \<Rightarrow> string" where
  "str_nat n = (if n < 10 then [digit_char n] else str_nat (n div 10) @ [digit_char (n mod 10)])"

declare str_nat.simps [simp del]

section \<open>Library functions the code calls\<close>

text \<open>
  Functions of the Python standard library and of numpy that the code calls and that are
  not part of the repository are parameters of the model, but for \<^verbatim>\<open>hashlib.md5\<close>, which
  is written out below. A function that can raise returns an option: \<^verbatim>\<open>fromisoformat\<close>
  and \<^verbatim>\<open>int\<close> on a string that does not parse, \<^verbatim>\<open>str.encode\<close> (to UTF-8) on a string
  with a lone surrogate. A string of the model stands for a Python string; the bytes it
  encodes to are what \<open>str_encode\<close> says.
\<close>

record datetime =
  dt_hour :: int
  dt_weekday :: int

record pylib =
  py_str :: "pyval \<Rightarrow> string"
  fromisoformat :: "string \<Rightarrow> datetime option"
  findall_count :: "nat \<Rightarrow> string \<Rightarrow> nat"
  np_log2 :: "real \<Rightarrow> real"
  format_1f :: "real \<Rightarrow> string"
  py_int :: "string \<Rightarrow> int option"
  str_lower :: "string \<Rightarrow> string"
  isalnum :: "char \<Rightarrow> bool"
  str_encode :: "string \<Rightarrow> nat list option"

section \<open>MD5 (hashlib.md5)\<close>

text \<open>
  \<^verbatim>\<open>hashlib.md5(s.encode()).hexdigest()\<close>, after RFC 1321. The 32-bit words are natural
  numbers below \<open>2 ^ 32\<close>, with the wrap-around of the additions and of the rotation
  written out. \<open>md5_digest\<close> works on bytes; \<open>python_md5\<close> is the digest of a string of
  ASCII characters, whose UTF-8 bytes are the codes of its characters, as in the id strings
  of the alert manager (a timestamp of \<^verbatim>\<open>isoformat\<close>, an underscore and decimal digits).
\<close>

definition md5_s :: "nat list" where
  "md5_s =
     [7, 12, 17, 22, 7, 12, 17, 22, 7, 12, 17, 22, 7, 12, 17, 22,
      5, 9, 14, 20, 5, 9, 14, 20, 5, 9, 14, 20, 5, 9, 14, 20,
      4, 11, 16, 23, 4, 11, 16, 23, 4, 11, 16, 23, 4, 11, 16, 23,
      6, 10, 15, 21, 6, 10, 15, 21, 6, 10, 15, 21, 6, 10, 15, 21]"

definition md5_K :: "nat list" where
  "md5_K =
     [3614090360, 3905402710, 606105819, 3250441966,
      4118548399, 1200080426, 2821735955, 4249261313,
      1770035416, 2336552879, 4294925233, 2304563134,
      1804603682, 4254626195, 2792965006, 1236535329,
      4129170786, 3225465664, 643717713, 3921069994,
      3593408605, 38016083, 3634488961, 3889429448,
      568446438, 3275163606, 4107603335, 1163531501,
      2850285829, 4243563512, 1735328473, 2368359562,
      4294588738, 2272392833, 1839030562, 4259657740,
      2763975236, 1272893353, 4139469664, 3200236656,
      681279174, 3936430074, 3572445317, 76029189,
      3654602809, 3873151461, 530742520, 3299628645,
      4096336452, 1126891415, 2878612391, 4237533241,
      1700485571, 2399980690, 4293915773, 2240044497,
      1873313359, 4264355552, 2734768916, 1309151649,
      4149444226, 3174756917, 718787259, 3951481745]"

definition add32 :: "nat \<Rightarrow> nat \<Rightarrow> nat" where
  "add32 x y = (x + y) mod 4294967296"

definition not32 :: "nat \<Rightarrow> nat" where
  "not32 x = 4294967295 - x"

definition rotl32 :: "nat \<Rightarrow> nat \<Rightarrow> nat" where
  "rotl32 x n = (x * 2 ^ n) mod 4294967296 + x div 2 ^ (32 - n)"

text \<open>
  One of the 64 operations on the state \<open>(A, B, C, D)\<close> with the message block \<open>M\<close>: the
  round function, the index of the message word, and the new state.
\<close>

definition md5_F :: "nat \<Rightarrow> nat \<Rightarrow> nat \<Rightarrow> nat \<Rightarrow> nat" where
  "md5_F i B C D =
     (if i < 16 then (B AND C) OR (not32 B AND D)
      else if i < 32 then (D AND B) OR (not32 D AND C)
      else if i < 48 then B XOR C XOR D
      else C XOR (B OR not32 D))"

definition md5_g :: "nat \<Rightarrow> nat" where
  "md5_g i =
     (if i < 16 then i
      else if i < 32 then (5 * i + 1) mod 16
      else if i < 48 then (3 * i + 5) mod 16
      else (7 * i) mod 16)"

fun md5_step :: "nat list \<Rightarrow> nat \<times> nat \<times> nat \<times> nat \<Rightarrow> nat \<Rightarrow> nat \<times> nat \<times> nat \<times> nat" where
  "md5_step M (A, B, C, D) i =
     (D,
      add32 B (rotl32 (add32 (add32 (add32 (md5_F i B C D) A) (md5_K ! i)) (M ! md5_g i))
                 (md5_s ! i)),
      B, C)"

fun md5_rounds ::
  "nat list \<Rightarrow> nat \<Rightarrow> nat \<Rightarrow> nat \<times> nat \<times> nat \<times> nat \<Rightarrow> nat \<times> nat \<times> nat \<times> nat" where
  "md5_rounds M i 0 st = st"
| "md5_rounds M i (Suc n) st = md5_rounds M (Suc i) n (md5_step M st i)"

definition md5_chunk :: "nat \<times> nat \<times> nat \<times> nat \<Rightarrow> nat list \<Rightarrow> nat \<times> nat \<times> nat \<times> nat" where
  "md5_chunk st M =
     (case st of (a0, b0, c0, d0) \<Rightarrow>
        (case md5_rounds M 0 64 st of (A, B, C, D) \<Rightarrow>
           (add32 a0 A, add32 b0 B, add32 c0 C, add32 d0 D)))"

text \<open>Little-endian bytes of a number, and the number of little-endian bytes.\<close>

fun le_bytes :: "nat \<Rightarrow> nat \<Rightarrow> nat list" where
  "le_bytes 0 n = []"
| "le_bytes (Suc k) n = (n mod 256) # le_bytes k (n div 256)"

fun le_word :: "nat list \<Rightarrow> nat" where
  "le_word [] = 0"
| "le_word (b # bs) = b + 256 * le_word bs"

text \<open>The padding: the bit 1, zeros up to 56 modulo 64, the length in bits on 8 bytes.\<close>

definition md5_pad :: "nat list \<Rightarrow> nat list" where
  "md5_pad msg =
     msg @ [128] @ replicate ((119 - length msg mod 64) mod 64) 0 @ le_bytes 8 (8 * length msg)"

fun md5_words :: "nat \<Rightarrow> nat list \<Rightarrow> nat list" where
  "md5_words 0 bs = []"
| "md5_words (Suc k) bs = le_word (take 4 bs) # md5_words k (drop 4 bs)"

fun md5_blocks :: "nat \<Rightarrow> nat list \<Rightarrow> nat list list" where
  "md5_blocks 0 bs = []"
| "md5_blocks (Suc k) bs = md5_words 16 (take 64 bs) # md5_blocks k (drop 64 bs)"

definition md5_digest :: "nat list \<Rightarrow> nat list" where
  "md5_digest msg =
     (let padded = md5_pad msg in
      case foldl md5_chunk (1732584193, 4023233417, 2562383102, 271733878)
             (md5_blocks (length padded div 64) padded) of
        (a, b, c, d) \<Rightarrow> le_bytes 4 a @ le_bytes 4 b @ le_bytes 4 c @ le_bytes 4 d)"

definition hex_char :: "nat \<Rightarrow> char" where
  "hex_char d = ''0123456789abcdef'' ! d"

definition hexdigest :: "nat list \<Rightarrow> string" where
  "hexdigest bs = concat (map (\<lambda>b. [hex_char (b div 16), hex_char (b mod 16)]) bs)"

definition python_md5 :: "string \<Rightarrow> string" where
  "python_md5 s = hexdigest (md5_digest (map of_char s))"

section \<open>Configuration (config.py)\<close>

record config =
  CONFIDENCE_THRESHOLD :: real
  SLACK_WEBHOOK_URL :: "string option"
  HIGH_SEVERITY_THRESHOLD :: real
  MEDIUM_SEVERITY_THRESHOLD :: real

text \<open>The values \<^verbatim>\<open>Config\<close> takes when no environment variable overrides them.\<close>

definition default_config :: config where
  "default_config =
     \<lparr> CONFIDENCE_THRESHOLD = 0.7, SLACK_WEBHOOK_URL = None,
       HIGH_SEVERITY_THRESHOLD = 0.85, MEDIUM_SEVERITY_THRESHOLD = 0.65 \<rparr>"

section \<open>Alert manager (alerts/alert\_manager.py)\<close>

datatype AlertSeverity = LOW | MEDIUM | HIGH | CRITICAL

fun severity_value :: "AlertSeverity \<Rightarrow> string" where
  "severity_value LOW = ''low''"
| "severity_value MEDIUM = ''medium''"
| "severity_value HIGH = ''high''"
| "severity_value CRITICAL = ''critical''"

text \<open>
  A threat detection result, the dictionary \<^verbatim>\<open>detect_threats\<close> builds. A field is
  \<open>None\<close> when the key is absent from the dictionary.
\<close>

record threat_result =
  tr_index :: "int option"
  tr_is_threat :: "bool option"
  tr_confidence :: "real option"
  tr_prediction :: "int option"
  tr_exceeds_threshold :: "bool option"

text \<open>\<^verbatim>\<open>threat_info.get('confidence', 0.0)\<close>\<close>

definition get_confidence :: "threat_result \<Rightarrow> real" where
  "get_confidence ti = (case tr_confidence ti of None \<Rightarrow> 0.0 | Some c \<Rightarrow> c)"

definition calculate_severity :: "config \<Rightarrow> threat_result \<Rightarrow> AlertSeverity" where
  "calculate_severity cfg threat_info =
     (let confidence = get_confidence threat_info in
      if confidence \<ge> HIGH_SEVERITY_THRESHOLD cfg then
        (if confidence \<ge> 0.95 then CRITICAL else HIGH)
      else if confidence \<ge> MEDIUM_SEVERITY_THRESHOLD cfg then MEDIUM
      else LOW)"

record alert =
  alert_id :: string
  timestamp :: string
  severity :: string
  confidence :: real
  source :: pyval
  event_timestamp :: pyval
  description :: string
  recommendations :: "string list"
  event_data :: pydict
  threat_info :: threat_result
  status :: string
  acknowledged_at :: "string option"
  resolved_at :: "string option"
  resolution_notes :: "string option"

datatype sink = LogSink | SlackSink | EmailSink

text \<open>
  The manager's state: the alert history and the per-severity counters of the source,
  the notifications sent so far, and the number of times the clock has been read
  (\<^verbatim>\<open>datetime.utcnow()\<close>); the \<open>n\<close>-th reading of the clock is \<open>clock n\<close>.
\<close>

record manager =
  alert_history :: "alert list"
  alert_count :: "string \<Rightarrow> nat"
  sent :: "(sink \<times> string) list"
  ticks :: nat

definition init_manager :: manager where
  "init_manager = \<lparr> alert_history = [], alert_count = (\<lambda>_. 0), sent = [], ticks = 0 \<rparr>"

text \<open>\<^verbatim>\<open>datetime.utcnow().isoformat()\<close>: reads the clock and advances the reading count.\<close>

definition utcnow_isoformat :: "(nat \<Rightarrow> string) \<Rightarrow> manager \<Rightarrow> string \<times> manager" where
  "utcnow_isoformat clock m = (clock (ticks m), m\<lparr>ticks := Suc (ticks m)\<rparr>)"

definition unique_str :: "string \<Rightarrow> nat \<Rightarrow> string" where
  "unique_str ts n = ts @ ''_'' @ str_nat n"

definition generate_alert_id :: "(nat \<Rightarrow> string) \<Rightarrow> manager \<Rightarrow> string \<times> manager" where
  "generate_alert_id clock m =
     (let (ts, m') = utcnow_isoformat clock m
      in (take 12 (python_md5 (unique_str ts (length (alert_history m)))), m'))"

definition generate_description :: "pylib \<Rightarrow> pydict \<Rightarrow> threat_result \<Rightarrow> string" where
  "generate_description lib ev ti =
     (let src = dict_get ev ''source'' (PStr ''unknown'');
          conf = get_confidence ti * 100;
          d0 = ''Potential security threat detected from '' @ py_str lib src @ '' '';
          d1 = d0 @ ''with '' @ format_1f lib conf @ ''% confidence. '';
          d2 = (if dict_has ev ''activity''
                then d1 @ ''Activity: '' @ py_str lib (dict_get ev ''activity'' PNone) @ ''. ''
                else d1);
          d3 = (if dict_has ev ''ip_address''
                then d2 @ ''Source IP: '' @ py_str lib (dict_get ev ''ip_address'' PNone) @ ''. ''
                else d2)
      in d3)"

definition generate_recommendations :: "AlertSeverity \<Rightarrow> threat_result \<Rightarrow> string list" where
  "generate_recommendations sev ti =
     (if sev \<in> {HIGH, CRITICAL} then
        [''Immediately investigate this event'',
         ''Review all recent activities from this source'',
         ''Consider blocking the source IP address'',
         ''Check for any successful unauthorized access'']
      else if sev = MEDIUM then
        [''Review this event during next security review'',
         ''Monitor the source for additional suspicious activity'',
         ''Verify user identity if applicable'']
      else
        [''Log for future analysis'',
         ''Monitor for pattern escalation''])"

text \<open>
  \<^verbatim>\<open>_distribute_alert\<close>: the log always, the chat webhook for high and critical alerts
  when one is configured, the e-mail sink for critical alerts. A failure of the webhook
  is caught inside \<^verbatim>\<open>_send_to_slack\<close> and changes nothing here.
\<close>

definition distribute_alert :: "config \<Rightarrow> alert \<Rightarrow> (sink \<times> string) list" where
  "distribute_alert cfg a =
     [(LogSink, alert_id a)]
     @ (if SLACK_WEBHOOK_URL cfg \<notin> {None, Some []} \<and> severity a \<in> {''high'', ''critical''}
        then [(SlackSink, alert_id a)] else [])
     @ (if severity a = ''critical'' then [(EmailSink, alert_id a)] else [])"

text \<open>
  \<^verbatim>\<open>generate_alert\<close>. The clock is read twice, first for the id and then for the alert's
  own timestamp. With an event that is a dictionary and a result whose confidence is a
  number, no statement of the body raises, so the \<^verbatim>\<open>except\<close> branch (which returns the
  empty dictionary) is not a branch of this model.
\<close>

definition generate_alert ::
  "pylib \<Rightarrow> config \<Rightarrow> (nat \<Rightarrow> string) \<Rightarrow> manager \<Rightarrow> pydict \<Rightarrow> threat_result \<Rightarrow>
     AlertSeverity option \<Rightarrow> alert \<times> manager" where
  "generate_alert lib cfg clock m ev ti sev_opt =
     (let sev = (case sev_opt of None \<Rightarrow> calculate_severity cfg ti | Some s \<Rightarrow> s);
          (aid, m1) = generate_alert_id clock m;
          (ts, m2) = utcnow_isoformat clock m1;
          a = \<lparr> alert_id = aid, timestamp = ts, severity = severity_value sev,
                confidence = get_confidence ti,
                source = dict_get ev ''source'' (PStr ''unknown''),
                event_timestamp = dict_get ev ''timestamp'' (PStr ''''),
                description = generate_description lib ev ti,
                recommendations = generate_recommendations sev ti,
                event_data = ev, threat_info = ti, status = ''open'',
                acknowledged_at = None, resolved_at = None, resolution_notes = None \<rparr>;
          m3 = m2\<lparr> alert_history := alert_history m2 @ [a],
                    alert_count := (alert_count m2)
                      (severity_value sev := Suc (alert_count m2 (severity_value sev))),
                    sent := sent m2 @ distribute_alert cfg a \<rparr>
      in (a, m3))"

text \<open>\<^verbatim>\<open>threat_result.get('is_threat')\<close> as a condition: an absent key is false.\<close>

definition flag_set :: "bool option \<Rightarrow> bool" where
  "flag_set f = (case f of None \<Rightarrow> False | Some b \<Rightarrow> b)"

text \<open>
  The loop of \<^verbatim>\<open>generate_batch_alerts\<close>, \<open>i\<close> being the position \<^verbatim>\<open>enumerate\<close> gives.
  \<^verbatim>\<open>events[event_idx]\<close> is Python indexing: it raises IndexError below \<open>- len(events)\<close>,
  and the exception leaves the function, since the loop has no handler.
\<close>

fun batch_loop ::
  "pylib \<Rightarrow> config \<Rightarrow> (nat \<Rightarrow> string) \<Rightarrow> pydict list \<Rightarrow> nat \<Rightarrow> threat_result list \<Rightarrow>
     alert list \<Rightarrow> manager \<Rightarrow> (py_error + alert list) \<times> manager" where
  "batch_loop lib cfg clock events i [] alerts m = (Inr alerts, m)"
| "batch_loop lib cfg clock events i (tr # rest) alerts m =
     (if flag_set (tr_is_threat tr) \<or> flag_set (tr_exceeds_threshold tr) then
        (let event_idx = (case tr_index tr of None \<Rightarrow> int i | Some j \<Rightarrow> j) in
         if event_idx < int (length events) then
           (case py_index events event_idx of
              Inl e \<Rightarrow> (Inl e, m)
            | Inr ev \<Rightarrow>
                (let (a, m') = generate_alert lib cfg clock m ev tr None
                 in batch_loop lib cfg clock events (Suc i) rest (alerts @ [a]) m'))
         else batch_loop lib cfg clock events (Suc i) rest alerts m)
      else batch_loop lib cfg clock events (Suc i) rest alerts m)"

definition generate_batch_alerts ::
  "pylib \<Rightarrow> config \<Rightarrow> (nat \<Rightarrow> string) \<Rightarrow> manager \<Rightarrow> pydict list \<Rightarrow> threat_result list \<Rightarrow>
     (py_error + alert list) \<times> manager" where
  "generate_batch_alerts lib cfg clock m events threat_results =
     batch_loop lib cfg clock events 0 threat_results [] m"

text \<open>
  \<^verbatim>\<open>acknowledge_alert\<close> and \<^verbatim>\<open>resolve_alert\<close>: the loop stops at the first alert of the
  history with the given id, updates it in place and returns True; it returns False when
  the loop ends without a match. The clock is read only on a match.
\<close>

fun acknowledge_loop :: "string \<Rightarrow> string \<Rightarrow> alert list \<Rightarrow> (bool \<times> alert list)" where
  "acknowledge_loop aid now [] = (False, [])"
| "acknowledge_loop aid now (a # as) =
     (if alert_id a = aid
      then (True, a\<lparr>status := ''acknowledged'', acknowledged_at := Some now\<rparr> # as)
      else (let (r, as') = acknowledge_loop aid now as in (r, a # as')))"

definition acknowledge_alert :: "(nat \<Rightarrow> string) \<Rightarrow> manager \<Rightarrow> string \<Rightarrow> bool \<times> manager" where
  "acknowledge_alert clock m aid =
     (let (r, h) = acknowledge_loop aid (clock (ticks m)) (alert_history m)
      in if r then (True, m\<lparr>alert_history := h, ticks := Suc (ticks m)\<rparr>) else (False, m))"

fun resolve_loop :: "string \<Rightarrow> string \<Rightarrow> string \<Rightarrow> alert list \<Rightarrow> (bool \<times> alert list)" where
  "resolve_loop aid now notes [] = (False, [])"
| "resolve_loop aid now notes (a # as) =
     (if alert_id a = aid
      then (True, a\<lparr>status := ''resolved'', resolved_at := Some now,
                     resolution_notes := Some notes\<rparr> # as)
      else (let (r, as') = resolve_loop aid now notes as in (r, a # as')))"

definition resolve_alert ::
  "(nat \<Rightarrow> string) \<Rightarrow> manager \<Rightarrow> string \<Rightarrow> string \<Rightarrow> bool \<times> manager" where
  "resolve_alert clock m aid notes =
     (let (r, h) = resolve_loop aid (clock (ticks m)) notes (alert_history m)
      in if r then (True, m\<lparr>alert_history := h, ticks := Suc (ticks m)\<rparr>) else (False, m))"

text \<open>The alert an id denotes: the first one of the history that carries it.\<close>

definition find_alert :: "manager \<Rightarrow> string \<Rightarrow> alert option" where
  "find_alert m aid = find (\<lambda>a. alert_id a = aid) (alert_history m)"

text \<open>
  Alerts generated one after another by a single writer: one \<^verbatim>\<open>generate_alert\<close> call per
  event and result, each on the manager the call before left.
\<close>

fun generate_many ::
  "pylib \<Rightarrow> config \<Rightarrow> (nat \<Rightarrow> string) \<Rightarrow> manager \<Rightarrow> (pydict \<times> threat_result) list \<Rightarrow> manager" where
  "generate_many lib cfg clock m [] = m"
| "generate_many lib cfg clock m ((ev, ti) # rest) =
     generate_many lib cfg clock (snd (generate_alert lib cfg clock m ev ti None)) rest"

section \<open>Threat detector (ml\_detection/threat\_detector.py)\<close>

text \<open>
  The random forest is scikit-learn's: its two prediction functions are fields of the
  detector, \<open>None\<close> standing for a call that raises. The feature array is a list of rows.
\<close>

record detector =
  is_trained :: bool
  model_predict :: "real list list \<Rightarrow> int list option"
  model_predict_proba :: "real list list \<Rightarrow> real list list option"

definition predict :: "detector \<Rightarrow> real list list \<Rightarrow> int list" where
  "predict det X =
     (if \<not> is_trained det then replicate (length X) 0
      else (case model_predict det X of
              Some predictions \<Rightarrow> predictions
            | None \<Rightarrow> replicate (length X) 0))"

definition predict_proba :: "detector \<Rightarrow> real list list \<Rightarrow> real list list" where
  "predict_proba det X =
     (if \<not> is_trained det then replicate (length X) [0.5, 0.5]
      else (case model_predict_proba det X of
              Some probabilities \<Rightarrow> probabilities
            | None \<Rightarrow> replicate (length X) [0.5, 0.5]))"

text \<open>
  One iteration of the loop of \<^verbatim>\<open>detect_threats\<close>; \<open>None\<close> when \<^verbatim>\<open>probabilities[i][1]\<close>
  or \<^verbatim>\<open>predictions[i]\<close> is out of range, which the enclosing \<^verbatim>\<open>try\<close> turns into the
  empty result list.
\<close>

definition detect_one ::
  "int list \<Rightarrow> real list list \<Rightarrow> real \<Rightarrow> nat \<Rightarrow> threat_result option" where
  "detect_one predictions probabilities threshold i =
     (if i < length probabilities \<and> 1 < length (probabilities ! i) \<and> i < length predictions
      then (let threat_prob = probabilities ! i ! 1 in
            Some \<lparr> tr_index = Some (int i),
                   tr_is_threat = Some (predictions ! i = 1),
                   tr_confidence = Some threat_prob,
                   tr_prediction = Some (predictions ! i),
                   tr_exceeds_threshold = Some (threat_prob \<ge> threshold) \<rparr>)
      else None)"

definition detect_threats ::
  "config \<Rightarrow> detector \<Rightarrow> real list list \<Rightarrow> real option \<Rightarrow> threat_result list" where
  "detect_threats cfg det X threshold_opt =
     (let threshold = (case threshold_opt of None \<Rightarrow> CONFIDENCE_THRESHOLD cfg | Some t \<Rightarrow> t);
          predictions = predict det X;
          probabilities = predict_proba det X
      in case those (map (detect_one predictions probabilities threshold) [0..<length X]) of
           None \<Rightarrow> []
         | Some results \<Rightarrow> results)"

section \<open>Feature extractor (preprocessing/feature\_extractor.py)\<close>

subsection \<open>String operations\<close>

text \<open>\<^verbatim>\<open>sub in s\<close> on strings.\<close>

fun starts_with :: "string \<Rightarrow> string \<Rightarrow> bool" where
  "starts_with [] s = True"
| "starts_with (p # ps) [] = False"
| "starts_with (p # ps) (c # cs) = (p = c \<and> starts_with ps cs)"

fun str_contains :: "string \<Rightarrow> string \<Rightarrow> bool" where
  "str_contains sub [] = (sub = [])"
| "str_contains sub (c # cs) = (starts_with sub (c # cs) \<or> str_contains sub cs)"

text \<open>\<^verbatim>\<open>s.replace('Z', '+00:00')\<close>\<close>

definition replace_Z :: "string \<Rightarrow> string" where
  "replace_Z s = concat (map (\<lambda>c. if c = CHR ''Z'' then ''+00:00'' else [c]) s)"

text \<open>\<^verbatim>\<open>s.split('.')\<close>: the pieces between the dots, at least one piece.\<close>

fun split_dot :: "string \<Rightarrow> string list" where
  "split_dot [] = [[]]"
| "split_dot (c # cs) =
     (if c = CHR ''.'' then [] # split_dot cs
      else (case split_dot cs of [] \<Rightarrow> [[c]] | p # ps \<Rightarrow> (c # p) # ps))"

text \<open>\<^verbatim>\<open>int(h, 16)\<close> on a string of lower-case hexadecimal digits.\<close>

definition hex_digit :: "char \<Rightarrow> nat" where
  "hex_digit c = (if of_char c < (58::nat) then of_char c - 48 else of_char c - 87)"

definition int_base16 :: "string \<Rightarrow> nat" where
  "int_base16 h = foldl (\<lambda>acc c. 16 * acc + hex_digit c) 0 h"

subsection \<open>The extractor\<close>

text \<open>
  The extractor's state is its cache of IP reputation scores. The builtins \<^verbatim>\<open>str\<close>,
  \<^verbatim>\<open>int\<close>, \<^verbatim>\<open>str.lower\<close>, \<^verbatim>\<open>str.isalnum\<close> and \<^verbatim>\<open>str.encode\<close>, \<^verbatim>\<open>re.findall\<close>,
  \<^verbatim>\<open>datetime.fromisoformat\<close> and \<^verbatim>\<open>numpy.log2\<close> come from the library record; a builtin
  that can raise returns an option.
\<close>

type_synonym ip_cache = "(string \<times> real) list"

definition SUSPICIOUS_AGENTS :: "string list" where
  "SUSPICIOUS_AGENTS = [''bot'', ''crawler'', ''scanner'', ''sqlmap'', ''nikto'', ''nmap'']"

definition temporal_sentinels :: pydict where
  "temporal_sentinels =
     [(''hour'', PInt (- 1)), (''day_of_week'', PInt (- 1)), (''is_weekend'', PInt 0),
      (''is_business_hours'', PInt 0), (''is_night'', PInt 0)]"

text \<open>
  \<^verbatim>\<open>_extract_temporal_features\<close>. A timestamp that is not a string has no \<^verbatim>\<open>replace\<close>
  method and one that does not parse makes \<^verbatim>\<open>fromisoformat\<close> raise: the handler of the
  function answers both with the sentinels, as the \<^verbatim>\<open>else\<close> branch does for a missing or
  empty timestamp.
\<close>

definition extract_temporal_features :: "pylib \<Rightarrow> pydict \<Rightarrow> pydict" where
  "extract_temporal_features lib log_event =
     (let timestamp_str = dict_get log_event ''timestamp'' (PStr '''') in
      if truthy timestamp_str then
        (case timestamp_str of
           PStr s \<Rightarrow>
             (case fromisoformat lib (replace_Z s) of
                Some dt \<Rightarrow>
                  [(''hour'', PInt (dt_hour dt)),
                   (''day_of_week'', PInt (dt_weekday dt)),
                   (''is_weekend'', PInt (if dt_weekday dt \<ge> 5 then 1 else 0)),
                   (''is_business_hours'',
                      PInt (if 9 \<le> dt_hour dt \<and> dt_hour dt \<le> 17 then 1 else 0)),
                   (''is_night'', PInt (if dt_hour dt < 6 \<or> dt_hour dt > 22 then 1 else 0))]
              | None \<Rightarrow> temporal_sentinels)
         | _ \<Rightarrow> temporal_sentinels)
      else temporal_sentinels)"

text \<open>
  \<^verbatim>\<open>_hash_value\<close>. \<^verbatim>\<open>value.encode()\<close> gives the UTF-8 bytes of the string and raises
  UnicodeEncodeError on a string that holds a lone surrogate, which \<^verbatim>\<open>json.loads\<close> produces
  from an escape such as \<^verbatim>\<open>\ud800\<close>; the function has no handler.
\<close>

definition hash_value :: "pylib \<Rightarrow> string \<Rightarrow> py_error + int" where
  "hash_value lib v =
     (if v = [] \<or> v = ''unknown'' then Inr 0
      else (case str_encode lib v of
              None \<Rightarrow> Inl UnicodeEncodeError
            | Some bytes \<Rightarrow>
                Inr (int (int_base16 (take 8 (hexdigest (md5_digest bytes))) mod 1000000))))"

definition is_private_ip :: "pylib \<Rightarrow> string \<Rightarrow> int" where
  "is_private_ip lib ip =
     (let octets = split_dot ip in
      if length octets \<noteq> 4 then 0
      else (case py_int lib (octets ! 0) of
              None \<Rightarrow> 0
            | Some first \<Rightarrow>
                (case py_int lib (octets ! 1) of
                   None \<Rightarrow> 0
                 | Some second \<Rightarrow>
                     if first = 10 then 1
                     else if first = 172 \<and> 16 \<le> second \<and> second \<le> 31 then 1
                     else if first = 192 \<and> second = 168 then 1
                     else 0)))"

definition get_ip_reputation :: "pylib \<Rightarrow> ip_cache \<Rightarrow> string \<Rightarrow> real \<times> ip_cache" where
  "get_ip_reputation lib cache ip =
     (case map_of cache ip of
        Some score \<Rightarrow> (score, cache)
      | None \<Rightarrow>
          (let score = (if is_private_ip lib ip \<noteq> 0 then 0.9 else 0.5)
           in (score, AList.update ip score cache)))"

definition check_suspicious_agent :: "pylib \<Rightarrow> pyval \<Rightarrow> int" where
  "check_suspicious_agent lib user_agent =
     (let user_agent_lower = str_lower lib (py_str lib user_agent) in
      if \<exists>agent \<in> set SUSPICIOUS_AGENTS. str_contains agent user_agent_lower then 1 else 0)"

text \<open>\<^verbatim>\<open>a or b\<close>, the second operand being evaluated only when the first is falsy.\<close>

definition py_or :: "pyval \<Rightarrow> (py_error + pyval) \<Rightarrow> py_error + pyval" where
  "py_or a b = (if truthy a then Inr a else b)"

definition bind_err :: "py_error + 'a \<Rightarrow> ('a \<Rightarrow> py_error + 'b) \<Rightarrow> py_error + 'b" where
  "bind_err r f = (case r of Inl e \<Rightarrow> Inl e | Inr v \<Rightarrow> f v)"

text \<open>
  \<^verbatim>\<open>message.get('ip_address') or message.get('IPAddress') or raw_data.get('ip_address')
  or 'unknown'\<close>: \<^verbatim>\<open>message\<close> and \<^verbatim>\<open>raw_data\<close> are whatever the event holds under these
  keys, and \<^verbatim>\<open>.get\<close> raises on a value that is not a dictionary.
\<close>

definition lookup_ip_address :: "pyval \<Rightarrow> pyval \<Rightarrow> py_error + pyval" where
  "lookup_ip_address message raw_data =
     bind_err (attr_get message ''ip_address'' PNone) (\<lambda>a.
       py_or a (bind_err (attr_get message ''IPAddress'' PNone) (\<lambda>b.
         py_or b (bind_err (attr_get raw_data ''ip_address'' PNone) (\<lambda>c.
           py_or c (Inr (PStr ''unknown'')))))))"

definition lookup_user_agent :: "pyval \<Rightarrow> py_error + pyval" where
  "lookup_user_agent message =
     bind_err (attr_get message ''user_agent'' (PStr '''')) (\<lambda>a.
       py_or a (attr_get message ''UserAgent'' (PStr '''')))"

text \<open>
  \<^verbatim>\<open>_extract_network_features\<close> has no handler of its own: an exception leaves it. The
  cache is returned as the call left it.
\<close>

definition extract_network_features ::
  "pylib \<Rightarrow> ip_cache \<Rightarrow> pydict \<Rightarrow> (py_error + pydict) \<times> ip_cache" where
  "extract_network_features lib cache log_event =
     (let message = dict_get log_event ''message'' (PDict []);
          raw_data = dict_get log_event ''raw_data'' (PDict [])
      in case lookup_ip_address message raw_data of
           Inl e \<Rightarrow> (Inl e, cache)
         | Inr ip_address \<Rightarrow>
             (let ip = py_str lib ip_address in
              case hash_value lib ip of
                Inl e \<Rightarrow> (Inl e, cache)
              | Inr ip_address_hash \<Rightarrow>
                  (let (score, cache') = get_ip_reputation lib cache ip
                   in case lookup_user_agent message of
                        Inl e \<Rightarrow> (Inl e, cache')
                      | Inr user_agent \<Rightarrow>
                          (Inr [(''ip_address_hash'', PInt ip_address_hash),
                                (''is_private_ip'', PInt (is_private_ip lib ip)),
                                (''ip_reputation_score'', PFloat score),
                                (''is_suspicious_agent'',
                                   PInt (check_suspicious_agent lib user_agent)),
                                (''user_agent_length'',
                                   PInt (int (length (py_str lib user_agent))))],
                           cache'))))"

text \<open>
  \<^verbatim>\<open>_extract_event_features\<close>, without a handler either; the lookups and the hashes in the
  order of the source.
\<close>

definition extract_event_features :: "pylib \<Rightarrow> pydict \<Rightarrow> py_error + pydict" where
  "extract_event_features lib log_event =
     (let message = dict_get log_event ''message'' (PDict []) in
      bind_err (py_or (dict_get log_event ''event_id'' (PStr ''''))
                  (attr_get message ''EventID'' (PStr ''unknown''))) (\<lambda>event_id.
      bind_err (py_or (dict_get log_event ''activity'' (PStr ''''))
                  (attr_get message ''Activity'' (PStr ''''))) (\<lambda>activity.
      bind_err (py_or (dict_get log_event ''category'' (PStr ''''))
                  (attr_get message ''Category'' (PStr ''unknown''))) (\<lambda>category.
      bind_err (hash_value lib (py_str lib event_id)) (\<lambda>event_id_hash.
      bind_err (hash_value lib (py_str lib activity)) (\<lambda>activity_hash.
      bind_err (hash_value lib (py_str lib category)) (\<lambda>category_hash.
      bind_err (py_or (dict_get log_event ''result_type'' PNone)
                  (bind_err (attr_get message ''ResultType'' PNone) (\<lambda>b.
                     py_or b (bind_err (attr_get message ''Status'' PNone) (\<lambda>c.
                       py_or c (Inr (PStr ''unknown''))))))) (\<lambda>result_type.
      bind_err (py_or (dict_get log_event ''identity'' (PStr ''''))
                  (attr_get message ''Identity'' (PStr ''''))) (\<lambda>identity.
      bind_err (hash_value lib (py_str lib identity)) (\<lambda>identity_hash.
        Inr [(''event_id_hash'', PInt event_id_hash),
             (''activity_hash'', PInt activity_hash),
             (''category_hash'', PInt category_hash),
             (''is_failure'',
                PInt (if str_contains ''fail'' (str_lower lib (py_str lib result_type))
                      then 1 else 0)),
             (''is_success'',
                PInt (if str_contains ''success'' (str_lower lib (py_str lib result_type))
                      then 1 else 0)),
             (''identity_hash'', PInt identity_hash),
             (''has_identity'', PInt (if truthy identity then 1 else 0))]))))))))))"

text \<open>
  \<^verbatim>\<open>_check_pattern\<close> for the \<open>i\<close>-th of the five fixed patterns: the number of matches
  \<^verbatim>\<open>re.findall\<close> returns, normalised.
\<close>

definition check_pattern :: "pylib \<Rightarrow> string \<Rightarrow> nat \<Rightarrow> real" where
  "check_pattern lib text_str i = min (real (findall_count lib i text_str) / 10.0) 1.0"

definition extract_pattern_features :: "pylib \<Rightarrow> pydict \<Rightarrow> pydict" where
  "extract_pattern_features lib log_event =
     (let log_str = str_lower lib (py_str lib (PDict log_event));
          sql = check_pattern lib log_str 0;
          xss = check_pattern lib log_str 1;
          path = check_pattern lib log_str 2;
          cmd = check_pattern lib log_str 3;
          code = check_pattern lib log_str 4
      in [(''sql_injection_score'', PFloat sql),
          (''xss_score'', PFloat xss),
          (''path_traversal_score'', PFloat path),
          (''command_injection_score'', PFloat cmd),
          (''code_execution_score'', PFloat code),
          (''overall_malicious_score'', PFloat ((sql + xss + path + cmd + code) / 5.0))])"

text \<open>\<^verbatim>\<open>_calculate_entropy\<close>: the character counts, then the sum over them.\<close>

definition char_freq :: "string \<Rightarrow> (char \<times> nat) list" where
  "char_freq text_str =
     foldl (\<lambda>freq c. AList.update c (case map_of freq c of None \<Rightarrow> 1 | Some n \<Rightarrow> n + 1) freq)
       [] text_str"

definition calculate_entropy :: "pylib \<Rightarrow> string \<Rightarrow> real" where
  "calculate_entropy lib text_str =
     (if text_str = [] then 0.0
      else foldl (\<lambda>entropy count.
                    entropy - (real count / real (length text_str))
                              * np_log2 lib (real count / real (length text_str)))
             0.0 (map snd (char_freq text_str)))"

definition extract_statistical_features :: "pylib \<Rightarrow> pydict \<Rightarrow> pydict" where
  "extract_statistical_features lib log_event =
     (let message = dict_get log_event ''message'' (PDict []);
          message_str = py_str lib message
      in [(''message_length'', PInt (int (length message_str))),
          (''num_special_chars'',
             PInt (int (length (filter (\<lambda>c. \<not> isalnum lib c) message_str)))),
          (''entropy'', PFloat (calculate_entropy lib message_str)),
          (''num_fields'',
             PInt (case message of PDict kvs \<Rightarrow> int (length kvs) | _ \<Rightarrow> 0))])"

text \<open>
  \<^verbatim>\<open>extract_features\<close>: the five groups are merged in turn; the handler around the whole
  body turns an exception of any group into the empty dictionary.
\<close>

definition extract_features :: "pylib \<Rightarrow> ip_cache \<Rightarrow> pydict \<Rightarrow> pydict \<times> ip_cache" where
  "extract_features lib cache log_event =
     (let f0 = [(''source'', dict_get log_event ''source'' (PStr ''unknown''))];
          f1 = AList.update ''timestamp'' (dict_get log_event ''timestamp'' (PStr '''')) f0;
          f2 = dict_update f1 (extract_temporal_features lib log_event)
      in case extract_network_features lib cache log_event of
           (Inl e, cache') \<Rightarrow> ([], cache')
         | (Inr network, cache') \<Rightarrow>
             (case extract_event_features lib log_event of
                Inl e \<Rightarrow> ([], cache')
              | Inr event \<Rightarrow>
                  (let f3 = dict_update f2 network;
                       f4 = dict_update f3 event;
                       f5 = dict_update f4 (extract_pattern_features lib log_event);
                       f6 = dict_update f5 (extract_statistical_features lib log_event)
                   in (f6, cache'))))"

text \<open>The feature names the five groups and the two basic assignments write.\<close>

definition feature_names :: "string list" where
  "feature_names =
     [''source'', ''timestamp'',
      ''hour'', ''day_of_week'', ''is_weekend'', ''is_business_hours'', ''is_night'',
      ''ip_address_hash'', ''is_private_ip'', ''ip_reputation_score'', ''is_suspicious_agent'',
      ''user_agent_length'',
      ''event_id_hash'', ''activity_hash'', ''category_hash'', ''is_failure'', ''is_success'',
      ''identity_hash'', ''has_identity'',
      ''sql_injection_score'', ''xss_score'', ''path_traversal_score'',
      ''command_injection_score'', ''code_execution_score'', ''overall_malicious_score'',
      ''message_length'', ''num_special_chars'', ''entropy'', ''num_fields'']"

text \<open>Whether a value is a dictionary.\<close>

fun is_dict :: "pyval \<Rightarrow> bool" where
  "is_dict (PDict kvs) = True"
| "is_dict _ = False"

section \<open>Preprocessor (preprocessing/preprocessor.py)\<close>

text \<open>
  A pandas frame, as far as \<^verbatim>\<open>prepare_for_ml\<close> looks at it: the number of rows and the
  columns in order, each with its label, whether its dtype is numeric (a subtype of
  \<^verbatim>\<open>np.number\<close>; strings, objects and booleans are not) and its cells. A cell of a numeric
  column is a finite number, NaN (also what pandas writes for a missing value) or an
  infinity. In a well-formed frame the labels are distinct and every column has one cell
  per row, as in the frames \<^verbatim>\<open>normalize_logs\<close> builds from a list of dictionaries.
\<close>

datatype fnum = Fin real | NaN | PosInf | NegInf

record column =
  col_name :: string
  col_numeric :: bool
  col_values :: "fnum list"

record dataframe =
  df_rows :: nat
  df_columns :: "column list"

definition wf_frame :: "dataframe \<Rightarrow> bool" where
  "wf_frame df =
     (distinct (map col_name (df_columns df)) \<and>
      list_all (\<lambda>c. length (col_values c) = df_rows df) (df_columns df))"

text \<open>\<^verbatim>\<open>df.empty\<close>: no row or no column.\<close>

definition df_empty :: "dataframe \<Rightarrow> bool" where
  "df_empty df = (df_rows df = 0 \<or> df_columns df = [])"

text \<open>\<^verbatim>\<open>df.select_dtypes(include=[np.number])\<close>\<close>

definition select_dtypes_number :: "dataframe \<Rightarrow> dataframe" where
  "select_dtypes_number df = df\<lparr>df_columns := filter col_numeric (df_columns df)\<rparr>"

text \<open>\<^verbatim>\<open>df.drop(columns=[c for c in exclude if c in df.columns], errors='ignore')\<close>\<close>

definition drop_columns :: "string list \<Rightarrow> dataframe \<Rightarrow> dataframe" where
  "drop_columns exclude df =
     df\<lparr>df_columns := filter (\<lambda>c. col_name c \<notin> set exclude) (df_columns df)\<rparr>"

text \<open>
  The loop \<^verbatim>\<open>for col in feature_columns: if col not in df.columns: df[col] = 0\<close>: a missing
  label is appended as a numeric column of zeros.
\<close>

fun add_missing :: "string list \<Rightarrow> dataframe \<Rightarrow> dataframe" where
  "add_missing [] df = df"
| "add_missing (c # cs) df =
     add_missing cs
       (if c \<in> set (map col_name (df_columns df)) then df
        else df\<lparr>df_columns := df_columns df @
               [\<lparr>col_name = c, col_numeric = True,
                 col_values = replicate (df_rows df) (Fin 0)\<rparr>]\<rparr>)"

text \<open>
  \<^verbatim>\<open>df[labels]\<close>: the columns with these labels, in the order of the labels. A label the
  frame does not have raises KeyError; after \<open>add_missing\<close> there is none.
\<close>

definition select_columns :: "string list \<Rightarrow> dataframe \<Rightarrow> dataframe option" where
  "select_columns labels df =
     (case those (map (\<lambda>l. find (\<lambda>c. col_name c = l) (df_columns df)) labels) of
        None \<Rightarrow> None
      | Some cols \<Rightarrow> Some (df\<lparr>df_columns := cols\<rparr>))"

text \<open>\<^verbatim>\<open>df.fillna(0)\<close> and \<^verbatim>\<open>df.replace([np.inf, -np.inf], 0)\<close>, cell by cell.\<close>

fun fillna0 :: "fnum \<Rightarrow> fnum" where
  "fillna0 NaN = Fin 0"
| "fillna0 v = v"

fun replace_inf0 :: "fnum \<Rightarrow> fnum" where
  "replace_inf0 PosInf = Fin 0"
| "replace_inf0 NegInf = Fin 0"
| "replace_inf0 v = v"

definition map_cells :: "(fnum \<Rightarrow> fnum) \<Rightarrow> dataframe \<Rightarrow> dataframe" where
  "map_cells f df =
     df\<lparr>df_columns := map (\<lambda>c. c\<lparr>col_values := map f (col_values c)\<rparr>) (df_columns df)\<rparr>"

text \<open>\<^verbatim>\<open>df.values\<close>: the rows of the frame.\<close>

definition df_values :: "dataframe \<Rightarrow> fnum list list" where
  "df_values df = map (\<lambda>i. map (\<lambda>c. col_values c ! i) (df_columns df)) [0..<df_rows df]"

record preprocessor =
  feature_columns :: "string list option"

text \<open>
  \<^verbatim>\<open>prepare_for_ml\<close>. The empty array is the empty list of rows. An exception inside the
  body (here only the KeyError of the selection) is answered with the empty array.
\<close>

definition prepare_for_ml ::
  "preprocessor \<Rightarrow> dataframe \<Rightarrow> bool \<Rightarrow> fnum list list \<times> preprocessor" where
  "prepare_for_ml p df training =
     (if df_empty df then ([], p)
      else
        (let numeric_features = drop_columns [''timestamp''] (select_dtypes_number df) in
         if training then
           (let p' = p\<lparr>feature_columns := Some (map col_name (df_columns numeric_features))\<rparr>
            in (df_values (map_cells replace_inf0 (map_cells fillna0 numeric_features)), p'))
         else
           (case (case feature_columns p of
                    None \<Rightarrow> Some numeric_features
                  | Some cols \<Rightarrow>
                      if cols \<noteq> []
                      then select_columns cols (add_missing cols numeric_features)
                      else Some numeric_features) of
              None \<Rightarrow> ([], p)
            | Some nf \<Rightarrow> (df_values (map_cells replace_inf0 (map_cells fillna0 nf)), p))))"

text \<open>
  The value the specification gives a registered name: the cell of the numeric column of
  that name, cleaned, and 0 when the frame has no such column.
\<close>

definition reconciled_cell :: "dataframe \<Rightarrow> nat \<Rightarrow> string \<Rightarrow> fnum" where
  "reconciled_cell df i l =
     (case find (\<lambda>c. col_name c = l)
             (df_columns (drop_columns [''timestamp''] (select_dtypes_number df))) of
        None \<Rightarrow> Fin 0
      | Some c \<Rightarrow> replace_inf0 (fillna0 (col_values c ! i)))"

definition reconciled :: "string list \<Rightarrow> dataframe \<Rightarrow> fnum list list" where
  "reconciled registry df = map (\<lambda>i. map (reconciled_cell df i) registry) [0..<df_rows df]"

text \<open>
  The column \<^verbatim>\<open>df[labels]\<close> picks for a label after the missing labels were added: the
  frame's own column of that name, or the column of zeros.
\<close>

definition zero_column :: "nat \<Rightarrow> string \<Rightarrow> column" where
  "zero_column n l = \<lparr>col_name = l, col_numeric = True, col_values = replicate n (Fin 0)\<rparr>"

definition pick :: "dataframe \<Rightarrow> string \<Rightarrow> column" where
  "pick nf l = (case find (\<lambda>c. col_name c = l) (df_columns nf) of
                  Some c \<Rightarrow> c | None \<Rightarrow> zero_column (df_rows nf) l)"

section \<open>Ingestion buffer (data\_collection/unified\_collector.py)\<close>

text \<open>
  \<^verbatim>\<open>queue.Queue(maxsize)\<close> of the standard library: \<^verbatim>\<open>full()\<close>, \<^verbatim>\<open>empty()\<close>,
  \<^verbatim>\<open>qsize()\<close>, \<^verbatim>\<open>put(item)\<close> and \<^verbatim>\<open>get_nowait()\<close> each run under the queue's lock, so
  each is one atomic step. \<^verbatim>\<open>put(item)\<close> is called with its defaults (block=True, no
  timeout): on a full queue it waits until a slot is free. \<open>q_put\<close> returns \<open>None\<close> for
  a call that has to wait.
\<close>

record 'e py_queue =
  maxsize :: nat
  items :: "'e list"

definition q_full :: "'e py_queue \<Rightarrow> bool" where
  "q_full q = (0 < maxsize q \<and> maxsize q \<le> length (items q))"

definition q_empty :: "'e py_queue \<Rightarrow> bool" where
  "q_empty q = (items q = [])"

definition q_qsize :: "'e py_queue \<Rightarrow> nat" where
  "q_qsize q = length (items q)"

definition q_put :: "'e py_queue \<Rightarrow> 'e \<Rightarrow> 'e py_queue option" where
  "q_put q e = (if q_full q then None else Some (q\<lparr>items := items q @ [e]\<rparr>))"

definition q_get_nowait :: "'e py_queue \<Rightarrow> ('e \<times> 'e py_queue) option" where
  "q_get_nowait q = (case items q of [] \<Rightarrow> None | e # es \<Rightarrow> Some (e, q\<lparr>items := es\<rparr>))"

text \<open>
  The collector: its queue, created with \<^verbatim>\<open>maxsize=10000\<close>, and the events dropped with
  the warning "Event queue is full, dropping event", in the order of the warnings.
\<close>

record 'e collector =
  event_queue :: "'e py_queue"
  dropped :: "'e list"

definition init_collector :: "'e collector" where
  "init_collector = \<lparr> event_queue = \<lparr>maxsize = 10000, items = []\<rparr>, dropped = [] \<rparr>"

text \<open>
  The body of the loop \<^verbatim>\<open>for event in events\<close> of a collection thread, run without
  another thread in between: the test of line 73 and then the \<^verbatim>\<open>put\<close> of line 74 or the
  warning of line 76. \<open>None\<close> is a \<^verbatim>\<open>put\<close> that has to wait.
\<close>

definition push :: "'e collector \<Rightarrow> 'e \<Rightarrow> 'e collector option" where
  "push c e =
     (if \<not> q_full (event_queue c) then
        (case q_put (event_queue c) e of
           None \<Rightarrow> None
         | Some q \<Rightarrow> Some (c\<lparr>event_queue := q\<rparr>))
      else Some (c\<lparr>dropped := dropped c @ [e]\<rparr>))"

fun push_all :: "'e collector \<Rightarrow> 'e list \<Rightarrow> 'e collector option" where
  "push_all c [] = Some c"
| "push_all c (e # es) = (case push c e of None \<Rightarrow> None | Some c' \<Rightarrow> push_all c' es)"

text \<open>\<^verbatim>\<open>get_events(max_events)\<close>: up to \<open>max_events\<close> events from the head of the queue.\<close>

fun get_events_loop :: "nat \<Rightarrow> 'e py_queue \<Rightarrow> 'e list \<Rightarrow> 'e list \<times> 'e py_queue" where
  "get_events_loop 0 q events = (events, q)"
| "get_events_loop (Suc n) q events =
     (if q_empty q then (events, q)
      else (case q_get_nowait q of
              None \<Rightarrow> (events, q)
            | Some (e, q') \<Rightarrow> get_events_loop n q' (events @ [e])))"

definition get_events :: "'e collector \<Rightarrow> nat \<Rightarrow> 'e list \<times> 'e collector" where
  "get_events c max_events =
     (let (events, q) = get_events_loop max_events (event_queue c) []
      in (events, c\<lparr>event_queue := q\<rparr>))"

subsection \<open>The two collection threads\<close>

text \<open>
  \<^verbatim>\<open>start_collection\<close> starts one thread for AWS and one for Azure; both run the same loop
  on the same queue. Between the test \<^verbatim>\<open>if not self.event_queue.full()\<close> and the call
  \<^verbatim>\<open>self.event_queue.put(event)\<close> a thread can be preempted, so a thread is either
  outside the two lines or has passed the test with its event and is about to call
  \<^verbatim>\<open>put\<close>.
\<close>

datatype producer = AWS | Azure

datatype 'e pc = Idle | Checked 'e

record 'e system =
  coll :: "'e collector"
  aws_pc :: "'e pc"
  azure_pc :: "'e pc"

definition init_system :: "'e system" where
  "init_system = \<lparr> coll = init_collector, aws_pc = Idle, azure_pc = Idle \<rparr>"

fun pc_of :: "'e system \<Rightarrow> producer \<Rightarrow> 'e pc" where
  "pc_of s AWS = aws_pc s"
| "pc_of s Azure = azure_pc s"

fun set_pc :: "'e system \<Rightarrow> producer \<Rightarrow> 'e pc \<Rightarrow> 'e system" where
  "set_pc s AWS v = s\<lparr>aws_pc := v\<rparr>"
| "set_pc s Azure v = s\<lparr>azure_pc := v\<rparr>"

text \<open>
  The atomic steps: a producer tests the queue for its next event (line 73, with the
  warning of line 76 when the queue is full), a producer that passed the test calls
  \<^verbatim>\<open>put\<close> (line 74), the consumer takes one event (\<^verbatim>\<open>get_nowait\<close>).
\<close>

datatype 'e action = Test producer 'e | Put producer | Get

text \<open>
  \<open>step\<close> is \<open>None\<close> when the action cannot be taken in the state. For \<open>Put\<close> this is
  the producer waiting inside \<^verbatim>\<open>put\<close> on a full queue.
\<close>

fun step :: "'e system \<Rightarrow> 'e action \<Rightarrow> 'e system option" where
  "step s (Test p e) =
     (case pc_of s p of
        Checked _ \<Rightarrow> None
      | Idle \<Rightarrow>
          if \<not> q_full (event_queue (coll s)) then Some (set_pc s p (Checked e))
          else Some (s\<lparr>coll := (coll s)\<lparr>dropped := dropped (coll s) @ [e]\<rparr>\<rparr>))"
| "step s (Put p) =
     (case pc_of s p of
        Idle \<Rightarrow> None
      | Checked e \<Rightarrow>
          (case q_put (event_queue (coll s)) e of
             None \<Rightarrow> None
           | Some q \<Rightarrow> Some ((set_pc s p Idle)\<lparr>coll := (coll s)\<lparr>event_queue := q\<rparr>\<rparr>)))"
| "step s Get =
     (case q_get_nowait (event_queue (coll s)) of
        None \<Rightarrow> None
      | Some (e, q) \<Rightarrow> Some (s\<lparr>coll := (coll s)\<lparr>event_queue := q\<rparr>\<rparr>))"

fun run :: "'e system \<Rightarrow> 'e action list \<Rightarrow> 'e system option" where
  "run s [] = Some s"
| "run s (a # as) = (case step s a of None \<Rightarrow> None | Some s' \<Rightarrow> run s' as)"

text \<open>A producer is blocked: it has passed the test and its \<^verbatim>\<open>put\<close> waits on a full queue.\<close>

definition blocked :: "'e system \<Rightarrow> producer \<Rightarrow> bool" where
  "blocked s p =
     (case pc_of s p of
        Idle \<Rightarrow> False
      | Checked e \<Rightarrow> q_put (event_queue (coll s)) e = None)"

text \<open>
  One producer alone pushing the events \<open>f 0, \<dots>, f (n - 1)\<close>, and the schedule of the
  race: the AWS thread fills the queue up to one free slot, both threads pass the test,
  the AWS thread puts its event, the Azure thread calls \<^verbatim>\<open>put\<close>.
\<close>

definition fill_schedule :: "(nat \<Rightarrow> 'e) \<Rightarrow> nat \<Rightarrow> 'e action list" where
  "fill_schedule f n = concat (map (\<lambda>i. [Test AWS (f i), Put AWS]) [0..<n])"

definition race_schedule :: "nat action list" where
  "race_schedule =
     fill_schedule (\<lambda>i. i) 9999 @ [Test AWS 9999, Test Azure 10000, Put AWS]"

section \<open>Example data\<close>

text \<open>A detection result, an alert, a manager holding it and a clock, for concrete runs.\<close>

definition example_result :: threat_result where
  "example_result =
     \<lparr>tr_index = Some 0, tr_is_threat = Some True, tr_confidence = Some 0.9,
      tr_prediction = Some 1, tr_exceeds_threshold = Some True\<rparr>"

definition example_alert :: alert where
  "example_alert =
     \<lparr> alert_id = ''0123456789ab'', timestamp = ''2024-01-01T00:00:00'', severity = ''high'',
       confidence = 0.9, source = PStr ''aws'', event_timestamp = PStr '''',
       description = ''Potential security threat detected from aws with 90.0% confidence. '',
       recommendations = generate_recommendations HIGH example_result,
       event_data = [(''source'', PStr ''aws'')], threat_info = example_result,
       status = ''open'', acknowledged_at = None, resolved_at = None,
       resolution_notes = None \<rparr>"

definition example_manager :: manager where
  "example_manager =
     \<lparr> alert_history = [example_alert],
       alert_count = (\<lambda>_. 0)(''high'' := 1), sent = [(LogSink, ''0123456789ab'')], ticks = 2 \<rparr>"

definition example_clock :: "nat \<Rightarrow> string" where
  "example_clock n = ''2024-01-01T00:00:0'' @ [digit_char n]"

text \<open>
  The event \<^verbatim>\<open>_parse_log_event\<close> of the AWS collector builds for a log line whose text is
  \<^verbatim>\<open>42\<close>: \<^verbatim>\<open>json.loads\<close> makes the message the number 42.
\<close>

definition scalar_message_event :: pydict where
  "scalar_message_event =
     [(''timestamp'', PStr ''2024-01-01T00:00:00''),
      (''log_stream'', PStr ''app''),
      (''message'', PInt 42),
      (''source'', PStr ''aws''),
      (''event_id'', PStr ''e1''),
      (''raw_data'', PDict [(''message'', PStr ''42''), (''timestamp'', PInt 1704067200000),
                           (''eventId'', PStr ''e1'')])]"

text \<open>
  A stand-in for the library functions, for concrete runs whose outcome does not depend on
  what the library computes.
\<close>

definition example_lib :: pylib where
  "example_lib =
     \<lparr> py_str = (\<lambda>v. case v of PStr s \<Rightarrow> s | _ \<Rightarrow> []),
       fromisoformat = (\<lambda>s. None),
       findall_count = (\<lambda>i s. 0),
       np_log2 = (\<lambda>x. 0),
       format_1f = (\<lambda>x. []),
       py_int = (\<lambda>s. None),
       str_lower = (\<lambda>s. s),
       isalnum = (\<lambda>c. True),
       str_encode = (\<lambda>s. Some (map of_char s)) \<rparr>"

text \<open>
  A frame of one row with a text column and the numeric columns a = 5, c = 7, d = 9, and a
  frame of one row with a text column only.
\<close>

definition frame_a5_c7_d9 :: dataframe where
  "frame_a5_c7_d9 =
     \<lparr> df_rows = 1,
       df_columns =
         [\<lparr>col_name = ''source'', col_numeric = False, col_values = [NaN]\<rparr>,
          \<lparr>col_name = ''a'', col_numeric = True, col_values = [Fin 5]\<rparr>,
          \<lparr>col_name = ''c'', col_numeric = True, col_values = [Fin 7]\<rparr>,
          \<lparr>col_name = ''d'', col_numeric = True, col_values = [Fin 9]\<rparr>] \<rparr>"

definition frame_source_only :: dataframe where
  "frame_source_only =
     \<lparr> df_rows = 1,
       df_columns = [\<lparr>col_name = ''source'', col_numeric = False, col_values = [NaN]\<rparr>] \<rparr>"

text \<open>
  Readings of the clock, in non-decreasing order: the first and the third are those the
  first two alert ids are computed from.
\<close>

definition collision_clock :: "nat \<Rightarrow> string" where
  "collision_clock n =
     (if n = 0 then ''2024-01-01T00:00:01.787859''
      else if n = 1 then ''2024-01-01T00:00:01.787860''
      else if n = 2 then ''2024-01-01T00:01:17.943931''
      else ''2024-01-01T00:01:17.943932'')"

section \<open>Properties of the severity mapping\<close>

text \<open>
  C3. With the thresholds 0.65 and 0.85, the severity of a result of confidence \<open>c\<close> is
  Low below 0.65, Medium from 0.65 up to 0.85, High from 0.85 up to 0.95 and Critical
  from 0.95 on. The function is total and deterministic, being a function of HOL.
\<close>

theorem calculate_severity_thresholds:
  assumes "HIGH_SEVERITY_THRESHOLD cfg = 0.85" and "MEDIUM_SEVERITY_THRESHOLD cfg = 0.65"
    and "tr_confidence ti = Some c"
  shows "(c < 0.65 \<longrightarrow> calculate_severity cfg ti = LOW) \<and>
         (0.65 \<le> c \<and> c < 0.85 \<longrightarrow> calculate_severity cfg ti = MEDIUM) \<and>
         (0.85 \<le> c \<and> c < 0.95 \<longrightarrow> calculate_severity cfg ti = HIGH) \<and>
         (0.95 \<le> c \<longrightarrow> calculate_severity cfg ti = CRITICAL)"
  using assms by (simp add: calculate_severity_def get_confidence_def)

theorem calculate_severity_thresholds_witness:
  "calculate_severity default_config
     \<lparr>tr_index = Some 0, tr_is_threat = Some False, tr_confidence = Some 0.50,
      tr_prediction = Some 0, tr_exceeds_threshold = Some False\<rparr> = LOW \<and>
   calculate_severity default_config
     \<lparr>tr_index = Some 0, tr_is_threat = Some True, tr_confidence = Some 0.70,
      tr_prediction = Some 1, tr_exceeds_threshold = Some True\<rparr> = MEDIUM \<and>
   calculate_severity default_config
     \<lparr>tr_index = Some 0, tr_is_threat = Some True, tr_confidence = Some 0.90,
      tr_prediction = Some 1, tr_exceeds_threshold = Some True\<rparr> = HIGH \<and>
   calculate_severity default_config
     \<lparr>tr_index = Some 0, tr_is_threat = Some True, tr_confidence = Some 0.97,
      tr_prediction = Some 1, tr_exceeds_threshold = Some True\<rparr> = CRITICAL"
proof -
  have h: "HIGH_SEVERITY_THRESHOLD default_config = 0.85"
    by (simp add: default_config_def)
  have l: "MEDIUM_SEVERITY_THRESHOLD default_config = 0.65"
    by (simp add: default_config_def)
  note t = calculate_severity_thresholds [OF h l]
  have "calculate_severity default_config
     \<lparr>tr_index = Some 0, tr_is_threat = Some False, tr_confidence = Some 0.50,
      tr_prediction = Some 0, tr_exceeds_threshold = Some False\<rparr> = LOW"
    using t [of _ "0.50"] by simp
  moreover have "calculate_severity default_config
     \<lparr>tr_index = Some 0, tr_is_threat = Some True, tr_confidence = Some 0.70,
      tr_prediction = Some 1, tr_exceeds_threshold = Some True\<rparr> = MEDIUM"
    using t [of _ "0.70"] by simp
  moreover have "calculate_severity default_config
     \<lparr>tr_index = Some 0, tr_is_threat = Some True, tr_confidence = Some 0.90,
      tr_prediction = Some 1, tr_exceeds_threshold = Some True\<rparr> = HIGH"
    using t [of _ "0.90"] by simp
  moreover have "calculate_severity default_config
     \<lparr>tr_index = Some 0, tr_is_threat = Some True, tr_confidence = Some 0.97,
      tr_prediction = Some 1, tr_exceeds_threshold = Some True\<rparr> = CRITICAL"
    using t [of _ "0.97"] by simp
  ultimately show ?thesis by blast
qed

section \<open>Properties of the untrained detector\<close>

lemma those_map_Some: "those (map (\<lambda>x. Some (f x)) xs) = Some (map f xs)"
  by (induction xs) auto

lemma detect_threats_untrained:
  assumes "\<not> is_trained det"
  shows "detect_threats cfg det X topt =
     map (\<lambda>i. \<lparr> tr_index = Some (int i), tr_is_threat = Some False, tr_confidence = Some 0.5,
            tr_prediction = Some 0,
            tr_exceeds_threshold =
              Some (0.5 \<ge> (case topt of None \<Rightarrow> CONFIDENCE_THRESHOLD cfg | Some t \<Rightarrow> t)) \<rparr>)
       [0..<length X]"
proof -
  let ?t = "case topt of None \<Rightarrow> CONFIDENCE_THRESHOLD cfg | Some t \<Rightarrow> t"
  let ?f = "\<lambda>i. \<lparr> tr_index = Some (int i), tr_is_threat = Some False, tr_confidence = Some 0.5,
            tr_prediction = Some 0, tr_exceeds_threshold = Some (0.5 \<ge> ?t) \<rparr>"
  have pr: "predict det X = replicate (length X) 0"
    using assms by (simp add: predict_def)
  have pp: "predict_proba det X = replicate (length X) [0.5, 0.5]"
    using assms by (simp add: predict_proba_def)
  have e: "map (detect_one (replicate (length X) 0) (replicate (length X) [0.5, 0.5]) ?t)
          [0..<length X] = map (\<lambda>i. Some (?f i)) [0..<length X]"
    by (rule map_cong) (simp_all add: detect_one_def)
  have t: "those (map (detect_one (predict det X) (predict_proba det X) ?t) [0..<length X]) =
      Some (map ?f [0..<length X])"
    unfolding pr pp e by (rule those_map_Some)
  show ?thesis
    unfolding detect_threats_def Let_def t by simp
qed

text \<open>
  C6. An untrained detector answers \<^verbatim>\<open>predict_proba\<close> with the row \<open>[0.5, 0.5]\<close> for every
  input row, so the probability of the suspicious class is 0.5; \<^verbatim>\<open>detect_threats\<close> then
  yields one result per row, of confidence 0.5, which the severity mapping sends to Low.
  No call can raise: the model is not consulted.
\<close>

theorem untrained_neutral:
  "\<not> is_trained det \<Longrightarrow>
     predict_proba det X = replicate (length X) [0.5, 0.5] \<and>
     (\<forall>i < length X. predict_proba det X ! i ! 1 = 0.5) \<and>
     length (detect_threats default_config det X None) = length X \<and>
     (\<forall>r \<in> set (detect_threats default_config det X None).
        tr_confidence r = Some 0.5 \<and> calculate_severity default_config r = LOW)"
proof -
  assume u: "\<not> is_trained det"
  have p: "predict_proba det X = replicate (length X) [0.5, 0.5]"
    using u by (simp add: predict_proba_def)
  have q: "\<forall>i < length X. predict_proba det X ! i ! 1 = 0.5"
    by (simp add: p)
  have d: "\<forall>r \<in> set (detect_threats default_config det X None).
        tr_confidence r = Some 0.5 \<and> calculate_severity default_config r = LOW"
    by (auto simp: detect_threats_untrained [OF u] calculate_severity_def get_confidence_def
        default_config_def)
  have l: "length (detect_threats default_config det X None) = length X"
    by (simp add: detect_threats_untrained [OF u])
  from p q d l show ?thesis by blast
qed

theorem untrained_neutral_witness:
  "predict_proba \<lparr>is_trained = False, model_predict = (\<lambda>_. None),
       model_predict_proba = (\<lambda>_. None)\<rparr> [[1, 2], [3, 4]] = [[0.5, 0.5], [0.5, 0.5]] \<and>
   map (calculate_severity default_config)
     (detect_threats default_config \<lparr>is_trained = False, model_predict = (\<lambda>_. None),
       model_predict_proba = (\<lambda>_. None)\<rparr> [[1, 2], [3, 4]] None) = [LOW, LOW]"
proof -
  let ?d = "\<lparr>is_trained = False, model_predict = (\<lambda>_. None),
       model_predict_proba = (\<lambda>_. None)\<rparr>"
  let ?X = "[[1, 2], [3, 4 :: real]]"
  have u: "\<not> is_trained ?d" by simp
  note n = untrained_neutral [OF u, of ?X]
  have a: "predict_proba ?d ?X = [[0.5, 0.5], [0.5, 0.5]]"
    using n by (simp add: numeral_2_eq_2)
  have len: "length (detect_threats default_config ?d ?X None) = 2"
    using n by simp
  have sev: "\<forall>r \<in> set (detect_threats default_config ?d ?X None).
      calculate_severity default_config r = LOW"
    using n by blast
  have b: "map (calculate_severity default_config)
      (detect_threats default_config ?d ?X None) = [LOW, LOW]"
  proof (cases "detect_threats default_config ?d ?X None")
    case Nil
    with len show ?thesis by simp
  next
    case (Cons r rs)
    with len obtain r' where rs: "rs = [r']"
      by (cases rs) auto
    from sev Cons rs show ?thesis by simp
  qed
  from a b show ?thesis by blast
qed

section \<open>Properties of the alert lifecycle\<close>



lemma acknowledge_loop_known:
  "find (\<lambda>a. alert_id a = aid) h = Some a \<Longrightarrow>
     fst (acknowledge_loop aid now h) \<and>
     find (\<lambda>a. alert_id a = aid) (snd (acknowledge_loop aid now h)) =
       Some (a\<lparr>status := ''acknowledged'', acknowledged_at := Some now\<rparr>) \<and>
     map alert_id (snd (acknowledge_loop aid now h)) = map alert_id h"
  by (induction h) (auto split: prod.splits)

lemma resolve_loop_known:
  "find (\<lambda>a. alert_id a = aid) h = Some a \<Longrightarrow>
     fst (resolve_loop aid now rnotes h) \<and>
     find (\<lambda>a. alert_id a = aid) (snd (resolve_loop aid now rnotes h)) =
       Some (a\<lparr>status := ''resolved'', resolved_at := Some now,
                resolution_notes := Some rnotes\<rparr>) \<and>
     map alert_id (snd (resolve_loop aid now rnotes h)) = map alert_id h"
  by (induction h) (auto split: prod.splits)

lemma find_present:
  "aid \<in> alert_id ` set h \<Longrightarrow> \<exists>a. find (\<lambda>a. alert_id a = aid) h = Some a"
  by (induction h) auto



lemma acknowledge_alert_known:
  assumes "find_alert m aid = Some a"
  shows "fst (acknowledge_alert clock m aid)"
    and "find_alert (snd (acknowledge_alert clock m aid)) aid =
           Some (a\<lparr>status := ''acknowledged'', acknowledged_at := Some (clock (ticks m))\<rparr>)"
    and "ticks (snd (acknowledge_alert clock m aid)) = Suc (ticks m)"
    and "map alert_id (alert_history (snd (acknowledge_alert clock m aid))) =
           map alert_id (alert_history m)"
  using acknowledge_loop_known [of aid "alert_history m" a "clock (ticks m)"] assms
  by (auto simp: acknowledge_alert_def find_alert_def split: prod.splits)

lemma resolve_alert_known:
  assumes "find_alert m aid = Some a"
  shows "fst (resolve_alert clock m aid rnotes)"
    and "find_alert (snd (resolve_alert clock m aid rnotes)) aid =
           Some (a\<lparr>status := ''resolved'', resolved_at := Some (clock (ticks m)),
                    resolution_notes := Some rnotes\<rparr>)"
    and "ticks (snd (resolve_alert clock m aid rnotes)) = Suc (ticks m)"
    and "map alert_id (alert_history (snd (resolve_alert clock m aid rnotes))) =
           map alert_id (alert_history m)"
  using resolve_loop_known [of aid "alert_history m" a "clock (ticks m)" rnotes] assms
  by (auto simp: resolve_alert_def find_alert_def split: prod.splits)


text \<open>
  C10. Resolved is not a terminal state: for an id present in the history, whatever the
  status of its alert, \<^verbatim>\<open>acknowledge_alert\<close> returns True and sets the status to
  acknowledged, and \<^verbatim>\<open>resolve_alert\<close> returns True, sets the status to resolved and
  replaces the resolution notes by the new ones.
\<close>

theorem resolved_not_terminal:
  "aid \<in> alert_id ` set (alert_history m) \<Longrightarrow>
     (\<exists>a. find_alert m aid = Some a \<and>
        fst (acknowledge_alert clock m aid) \<and>
        find_alert (snd (acknowledge_alert clock m aid)) aid =
          Some (a\<lparr>status := ''acknowledged'', acknowledged_at := Some (clock (ticks m))\<rparr>) \<and>
        fst (resolve_alert clock m aid rnotes) \<and>
        find_alert (snd (resolve_alert clock m aid rnotes)) aid =
          Some (a\<lparr>status := ''resolved'', resolved_at := Some (clock (ticks m)),
                   resolution_notes := Some rnotes\<rparr>))"
proof -
  assume "aid \<in> alert_id ` set (alert_history m)"
  then obtain a where fa: "find_alert m aid = Some a"
    using find_present [of aid "alert_history m"] by (auto simp: find_alert_def)
  show ?thesis
    using fa acknowledge_alert_known(1,2) [OF fa, of clock]
      resolve_alert_known(1,2) [OF fa, of clock rnotes]
    by blast
qed


theorem resolved_not_terminal_witness:
  "(let m = example_manager\<lparr>alert_history :=
              [example_alert\<lparr>status := ''resolved'', resolution_notes := Some ''old''\<rparr>]\<rparr>
    in fst (acknowledge_alert example_clock m ''0123456789ab'') \<and>
       map status (alert_history (snd (acknowledge_alert example_clock m ''0123456789ab'')))
         = [''acknowledged''] \<and>
       fst (resolve_alert example_clock m ''0123456789ab'' ''new'') \<and>
       map resolution_notes
         (alert_history (snd (resolve_alert example_clock m ''0123456789ab'' ''new'')))
         = [Some ''new''])"
proof -
  let ?m = "example_manager\<lparr>alert_history :=
              [example_alert\<lparr>status := ''resolved'', resolution_notes := Some ''old''\<rparr>]\<rparr>"
  have p: "''0123456789ab'' \<in> alert_id ` set (alert_history ?m)"
    by (simp add: example_alert_def)
  show ?thesis
    using resolved_not_terminal [OF p, of example_clock "''new''"]
    by (simp add: acknowledge_alert_def resolve_alert_def example_alert_def)
qed

section \<open>Properties of batch alerting\<close>

text \<open>
  The example of the specification: of three results, the first flagged as a threat, the
  second not flagged and the third over the threshold, the batch returns two alerts, for
  the first and the third event.
\<close>

lemma generate_batch_alerts_example:
  "case generate_batch_alerts lib cfg clock m [e0, e1, e2]
      [\<lparr>tr_index = Some 0, tr_is_threat = Some True, tr_confidence = Some c0,
        tr_prediction = Some 1, tr_exceeds_threshold = Some False\<rparr>,
       \<lparr>tr_index = Some 1, tr_is_threat = Some False, tr_confidence = Some c1,
        tr_prediction = Some 0, tr_exceeds_threshold = Some False\<rparr>,
       \<lparr>tr_index = Some 2, tr_is_threat = Some False, tr_confidence = Some c2,
        tr_prediction = Some 0, tr_exceeds_threshold = Some True\<rparr>] of
     (Inr alerts, m') \<Rightarrow> map event_data alerts = [e0, e2]
   | (Inl e, m') \<Rightarrow> False"
  by (simp add: generate_batch_alerts_def flag_set_def py_index_def generate_alert_def Let_def
      split: prod.splits)

text \<open>An index at or past the end of the events skips the result and the batch goes on.\<close>

lemma generate_batch_alerts_skips_past_end:
  "case generate_batch_alerts lib cfg clock m [e0]
      [\<lparr>tr_index = Some 1, tr_is_threat = Some True, tr_confidence = Some c0,
        tr_prediction = Some 1, tr_exceeds_threshold = Some True\<rparr>,
       \<lparr>tr_index = Some 0, tr_is_threat = Some True, tr_confidence = Some c1,
        tr_prediction = Some 1, tr_exceeds_threshold = Some True\<rparr>] of
     (Inr alerts, m') \<Rightarrow> map event_data alerts = [e0]
   | (Inl e, m') \<Rightarrow> False"
  by (simp add: generate_batch_alerts_def flag_set_def py_index_def generate_alert_def Let_def
      split: prod.splits)

text \<open>
  C5. The bounds check of \<^verbatim>\<open>generate_batch_alerts\<close> tests the carried index against the
  length of the events only from above. With one event and two flagged results, the first
  carrying the index 0 and the second the index -2, the first alert is generated and
  stored, then \<^verbatim>\<open>events[-2]\<close> raises IndexError: the call returns no list of alerts, while
  the history already holds the alert of the first result.
\<close>

theorem generate_batch_alerts_negative_index:
  "fst (generate_batch_alerts lib cfg clock init_manager [e0]
      [\<lparr>tr_index = Some 0, tr_is_threat = Some True, tr_confidence = Some c0,
        tr_prediction = Some 1, tr_exceeds_threshold = Some True\<rparr>,
       \<lparr>tr_index = Some (- 2), tr_is_threat = Some True, tr_confidence = Some c1,
        tr_prediction = Some 1, tr_exceeds_threshold = Some True\<rparr>]) = Inl IndexError \<and>
   map event_data (alert_history (snd (generate_batch_alerts lib cfg clock init_manager [e0]
      [\<lparr>tr_index = Some 0, tr_is_threat = Some True, tr_confidence = Some c0,
        tr_prediction = Some 1, tr_exceeds_threshold = Some True\<rparr>,
       \<lparr>tr_index = Some (- 2), tr_is_threat = Some True, tr_confidence = Some c1,
        tr_prediction = Some 1, tr_exceeds_threshold = Some True\<rparr>]))) = [e0]"
  by (simp add: generate_batch_alerts_def flag_set_def py_index_def generate_alert_def Let_def
      init_manager_def generate_alert_id_def utcnow_isoformat_def split: prod.splits)

section \<open>Properties of the feature extractor\<close>

lemma keys_AList_update:
  "map fst (AList.update k v al) = (if k \<in> set (map fst al) then map fst al else map fst al @ [k])"
  by (induction al) auto

lemma keys_dict_update: "map fst (dict_update d e) = keys_update (map fst d) (map fst e)"
proof (induction e arbitrary: d)
  case Nil
  then show ?case by (simp add: dict_update_def keys_update_def)
next
  case (Cons x e)
  obtain k v where x: "x = (k, v)" by (cases x)
  have "map fst (dict_update d (x # e)) = map fst (dict_update (AList.update k v d) e)"
    by (simp add: dict_update_def x)
  also have "\<dots> = keys_update (map fst (AList.update k v d)) (map fst e)"
    by (rule Cons.IH)
  also have "\<dots> = keys_update (map fst d) (map fst (x # e))"
    by (simp add: keys_update_def keys_AList_update x)
  finally show ?case .
qed

lemma map_of_dict_update: "map_of (dict_update d e) = map_of d ++ map_of (rev e)"
proof (induction e arbitrary: d)
  case Nil
  then show ?case by (simp add: dict_update_def)
next
  case (Cons x e)
  obtain k v where x: "x = (k, v)" by (cases x)
  have "map_of (dict_update d (x # e)) = map_of (dict_update (AList.update k v d) e)"
    by (simp add: dict_update_def x)
  also have "\<dots> = map_of (AList.update k v d) ++ map_of (rev e)"
    by (rule Cons.IH)
  also have "\<dots> = map_of d ++ map_of (rev (x # e))"
    by (rule ext) (simp add: x update_conv' map_add_def split: option.splits)
  finally show ?case .
qed

lemma keys_temporal:
  "map fst (extract_temporal_features lib ev) =
     [''hour'', ''day_of_week'', ''is_weekend'', ''is_business_hours'', ''is_night'']"
  by (simp add: extract_temporal_features_def temporal_sentinels_def Let_def
      split: pyval.splits option.splits)

lemma keys_network:
  "extract_network_features lib cache ev = (Inr fs, cache') \<Longrightarrow>
     map fst fs = [''ip_address_hash'', ''is_private_ip'', ''ip_reputation_score'',
                   ''is_suspicious_agent'', ''user_agent_length'']"
  by (auto simp: extract_network_features_def Let_def split: sum.splits prod.splits)

lemma keys_event:
  "extract_event_features lib ev = Inr fs \<Longrightarrow>
     map fst fs = [''event_id_hash'', ''activity_hash'', ''category_hash'', ''is_failure'',
                   ''is_success'', ''identity_hash'', ''has_identity'']"
  by (auto simp: extract_event_features_def Let_def bind_err_def split: sum.splits)

lemma keys_pattern:
  "map fst (extract_pattern_features lib ev) =
     [''sql_injection_score'', ''xss_score'', ''path_traversal_score'',
      ''command_injection_score'', ''code_execution_score'', ''overall_malicious_score'']"
  by (simp add: extract_pattern_features_def Let_def)

lemma keys_statistical:
  "map fst (extract_statistical_features lib ev) =
     [''message_length'', ''num_special_chars'', ''entropy'', ''num_fields'']"
  by (simp add: extract_statistical_features_def Let_def)

lemma extract_features_keys:
  assumes "extract_features lib cache ev = (fs, cache')" and "fs \<noteq> []"
  shows "map fst fs = feature_names"
proof -
  obtain r c1 where n: "extract_network_features lib cache ev = (r, c1)"
    by (cases "extract_network_features lib cache ev")
  show ?thesis
  proof (cases r)
    case (Inl e)
    with assms n show ?thesis by (simp add: extract_features_def Let_def)
  next
    case (Inr network)
    note rn = this
    show ?thesis
    proof (cases "extract_event_features lib ev")
      case (Inl e)
      with assms n rn show ?thesis by (simp add: extract_features_def Let_def)
    next
      case (Inr event)
      have kn: "map fst network = [''ip_address_hash'', ''is_private_ip'', ''ip_reputation_score'',
                   ''is_suspicious_agent'', ''user_agent_length'']"
        using keys_network n rn by blast
      have ke: "map fst event = [''event_id_hash'', ''activity_hash'', ''category_hash'',
                   ''is_failure'', ''is_success'', ''identity_hash'', ''has_identity'']"
        using keys_event Inr by blast
      have "fs = dict_update (dict_update (dict_update (dict_update (dict_update
              (AList.update ''timestamp'' (dict_get ev ''timestamp'' (PStr ''''))
                 [(''source'', dict_get ev ''source'' (PStr ''unknown''))])
              (extract_temporal_features lib ev)) network) event)
              (extract_pattern_features lib ev)) (extract_statistical_features lib ev)"
        using assms(1) n rn Inr by (simp add: extract_features_def Let_def)
      then show ?thesis
        by (simp add: keys_dict_update keys_AList_update keys_temporal kn ke keys_pattern
            keys_statistical keys_update_def feature_names_def)
    qed
  qed
qed

lemma lookup_ip_address_dicts:
  "\<exists>v. lookup_ip_address (PDict m) (PDict r) = Inr v"
  by (simp add: lookup_ip_address_def bind_err_def py_or_def)

lemma lookup_ip_address_non_dict:
  "\<not> is_dict message \<Longrightarrow> lookup_ip_address message raw_data = Inl AttributeError"
  by (cases message) (simp_all add: lookup_ip_address_def bind_err_def)

lemma lookup_user_agent_dict: "\<exists>v. lookup_user_agent (PDict m) = Inr v"
  by (simp add: lookup_user_agent_def bind_err_def py_or_def)

text \<open>A library whose \<^verbatim>\<open>encode\<close> never raises, as on strings without lone surrogates.\<close>

lemma hash_value_encodable:
  assumes "\<forall>s. str_encode lib s \<noteq> None"
  shows "\<exists>h. hash_value lib v = Inr h"
proof -
  from assms have "str_encode lib v \<noteq> None"
    by blast
  then obtain bytes where "str_encode lib v = Some bytes"
    by auto
  then show ?thesis
    by (simp add: hash_value_def)
qed

lemma network_dicts:
  assumes "is_dict (dict_get ev ''message'' (PDict []))"
    and "is_dict (dict_get ev ''raw_data'' (PDict []))"
    and "\<forall>s. str_encode lib s \<noteq> None"
  shows "\<exists>fs c. extract_network_features lib cache ev = (Inr fs, c)"
proof -
  obtain m where m: "dict_get ev ''message'' (PDict []) = PDict m"
    using assms(1) by (cases "dict_get ev ''message'' (PDict [])") simp_all
  obtain r where r: "dict_get ev ''raw_data'' (PDict []) = PDict r"
    using assms(2) by (cases "dict_get ev ''raw_data'' (PDict [])") simp_all
  obtain v where v: "lookup_ip_address (PDict m) (PDict r) = Inr v"
    using lookup_ip_address_dicts by blast
  obtain h where h: "hash_value lib (py_str lib v) = Inr h"
    using hash_value_encodable [OF assms(3)] by blast
  obtain u where u: "lookup_user_agent (PDict m) = Inr u"
    using lookup_user_agent_dict by blast
  show ?thesis
    by (simp add: extract_network_features_def Let_def m r v h u split: prod.splits)
qed

lemma network_non_dict:
  "\<not> is_dict (dict_get ev ''message'' (PDict [])) \<Longrightarrow>
     extract_network_features lib cache ev = (Inl AttributeError, cache)"
  by (simp add: extract_network_features_def Let_def lookup_ip_address_non_dict)

lemma bind_err_Inr: "r = Inr v \<Longrightarrow> bind_err r f = f v"
  by (simp add: bind_err_def)

lemma py_or_attr_dict: "\<exists>v. py_or a (attr_get (PDict m) k d) = Inr v"
  by (simp add: py_or_def)

lemma event_dict:
  assumes "is_dict (dict_get ev ''message'' (PDict []))"
    and "\<forall>s. str_encode lib s \<noteq> None"
  shows "\<exists>fs. extract_event_features lib ev = Inr fs"
proof -
  obtain m where m: "dict_get ev ''message'' (PDict []) = PDict m"
    using assms(1) by (cases "dict_get ev ''message'' (PDict [])") simp_all
  obtain event_id where e1: "py_or (dict_get ev ''event_id'' (PStr []))
      (attr_get (PDict m) ''EventID'' (PStr ''unknown'')) = Inr event_id"
    using py_or_attr_dict by blast
  obtain activity where e2: "py_or (dict_get ev ''activity'' (PStr []))
      (attr_get (PDict m) ''Activity'' (PStr [])) = Inr activity"
    using py_or_attr_dict by blast
  obtain category where e3: "py_or (dict_get ev ''category'' (PStr []))
      (attr_get (PDict m) ''Category'' (PStr ''unknown'')) = Inr category"
    using py_or_attr_dict by blast
  obtain h1 where h1: "hash_value lib (py_str lib event_id) = Inr h1"
    using hash_value_encodable [OF assms(2)] by blast
  obtain h2 where h2: "hash_value lib (py_str lib activity) = Inr h2"
    using hash_value_encodable [OF assms(2)] by blast
  obtain h3 where h3: "hash_value lib (py_str lib category) = Inr h3"
    using hash_value_encodable [OF assms(2)] by blast
  have "\<exists>r. py_or (dict_get ev ''result_type'' PNone)
      (bind_err (attr_get (PDict m) ''ResultType'' PNone) (\<lambda>b.
         py_or b (bind_err (attr_get (PDict m) ''Status'' PNone) (\<lambda>c.
           py_or c (Inr (PStr ''unknown'')))))) = Inr r"
    by (simp add: py_or_def bind_err_def)
  then obtain result_type where e4: "py_or (dict_get ev ''result_type'' PNone)
      (bind_err (attr_get (PDict m) ''ResultType'' PNone) (\<lambda>b.
         py_or b (bind_err (attr_get (PDict m) ''Status'' PNone) (\<lambda>c.
           py_or c (Inr (PStr ''unknown'')))))) = Inr result_type"
    by blast
  obtain identity where e5: "py_or (dict_get ev ''identity'' (PStr []))
      (attr_get (PDict m) ''Identity'' (PStr [])) = Inr identity"
    using py_or_attr_dict by blast
  obtain h4 where h4: "hash_value lib (py_str lib identity) = Inr h4"
    using hash_value_encodable [OF assms(2)] by blast
  show ?thesis
    unfolding extract_event_features_def Let_def m
    by (simp only: bind_err_Inr [OF e1] bind_err_Inr [OF e2] bind_err_Inr [OF e3]
        bind_err_Inr [OF h1] bind_err_Inr [OF h2] bind_err_Inr [OF h3]
        bind_err_Inr [OF e4] bind_err_Inr [OF e5] bind_err_Inr [OF h4]) simp
qed

lemma extract_features_non_dict_message:
  "\<not> is_dict (dict_get ev ''message'' (PDict [])) \<Longrightarrow>
     extract_features lib cache ev = ([], cache)"
  by (simp add: extract_features_def Let_def network_non_dict)

lemma AList_update_nonempty: "AList.update k v d \<noteq> []"
  by (cases d) auto

lemma dict_update_nonempty: "d \<noteq> [] \<Longrightarrow> dict_update d e \<noteq> []"
proof (induction e arbitrary: d)
  case Nil
  then show ?case by (simp add: dict_update_def)
next
  case (Cons x e)
  obtain k v where x: "x = (k, v)" by (cases x)
  have "dict_update d (x # e) = dict_update (AList.update k v d) e"
    by (simp add: dict_update_def x)
  then show ?case
    using Cons.IH [OF AList_update_nonempty] by simp
qed

text \<open>
  A string that cannot be encoded in the IP address makes the network group raise, and the
  result is empty, as for a message that is not a dictionary.
\<close>

lemma extract_features_unencodable_ip:
  assumes "lookup_ip_address (dict_get ev ''message'' (PDict []))
             (dict_get ev ''raw_data'' (PDict [])) = Inr ip"
    and "hash_value lib (py_str lib ip) = Inl e"
  shows "extract_features lib cache ev = ([], cache)"
  using assms by (simp add: extract_features_def extract_network_features_def Let_def)

lemma extract_features_dicts_nonempty:
  assumes "is_dict (dict_get ev ''message'' (PDict []))"
    and "is_dict (dict_get ev ''raw_data'' (PDict []))"
    and "\<forall>s. str_encode lib s \<noteq> None"
  shows "fst (extract_features lib cache ev) \<noteq> []"
proof -
  obtain n c where n: "extract_network_features lib cache ev = (Inr n, c)"
    using network_dicts [OF assms] by blast
  obtain e where e: "extract_event_features lib ev = Inr e"
    using event_dict [OF assms(1,3)] by blast
  show ?thesis
    by (simp add: extract_features_def Let_def n e dict_update_nonempty)
qed

text \<open>
  What holds of every event: the result is empty or has exactly the declared names; it has
  them when the message and the raw data are dictionaries and every string can be
  encoded; it is empty when the message is not a dictionary.
\<close>

lemma extract_features_complete_or_empty:
  "extract_features lib cache ev = (fs, cache') \<Longrightarrow>
     (fs = [] \<or> map fst fs = feature_names) \<and>
     (is_dict (dict_get ev ''message'' (PDict [])) \<and>
      is_dict (dict_get ev ''raw_data'' (PDict [])) \<and>
      (\<forall>s. str_encode lib s \<noteq> None) \<longrightarrow> map fst fs = feature_names) \<and>
     (\<not> is_dict (dict_get ev ''message'' (PDict [])) \<longrightarrow> fs = [])"
proof (intro conjI impI)
  assume r: "extract_features lib cache ev = (fs, cache')"
  show "fs = [] \<or> map fst fs = feature_names"
    using extract_features_keys [OF r] by blast
next
  assume r: "extract_features lib cache ev = (fs, cache')"
    and d: "is_dict (dict_get ev ''message'' (PDict [])) \<and>
            is_dict (dict_get ev ''raw_data'' (PDict [])) \<and>
            (\<forall>s. str_encode lib s \<noteq> None)"
  have "fs \<noteq> []"
    using extract_features_dicts_nonempty [of ev lib cache] d r by simp
  then show "map fst fs = feature_names"
    by (rule extract_features_keys [OF r])
next
  assume r: "extract_features lib cache ev = (fs, cache')"
    and d: "\<not> is_dict (dict_get ev ''message'' (PDict []))"
  show "fs = []"
    using extract_features_non_dict_message [OF d, of lib cache] r by simp
qed

text \<open>
  The temporal group contains its own failures: a timestamp that is not a string that
  parses gives the sentinels.
\<close>

lemma temporal_failure_sentinels:
  assumes "\<And>s. dict_get ev ''timestamp'' (PStr []) = PStr s \<Longrightarrow>
             fromisoformat lib (replace_Z s) = None"
  shows "extract_temporal_features lib ev = temporal_sentinels"
  using assms
  by (cases "dict_get ev ''timestamp'' (PStr [])")
    (simp_all add: extract_temporal_features_def Let_def)

text \<open>
  C1. \<^verbatim>\<open>extract_features\<close> does not return every declared name for every event, and a
  failure of one group does abort the others. The AWS collector parses the text of a log
  line with \<^verbatim>\<open>json.loads\<close>; a line whose text is \<^verbatim>\<open>42\<close> gives the event below, whose
  message is a number. On it the temporal group yields its five features, the pattern
  group its six and the statistical group its four (with \<^verbatim>\<open>num_fields\<close> = 0, by the
  \<^verbatim>\<open>isinstance\<close> test), but \<^verbatim>\<open>message.get\<close> raises in the network group, which has no
  handler, and the handler of \<^verbatim>\<open>extract_features\<close> returns the empty dictionary.
\<close>

theorem extract_features_aborts_on_scalar_message:
  "extract_features example_lib [] scalar_message_event = ([], []) \<and>
   map fst (extract_temporal_features example_lib scalar_message_event) =
     [''hour'', ''day_of_week'', ''is_weekend'', ''is_business_hours'', ''is_night''] \<and>
   map fst (extract_pattern_features example_lib scalar_message_event) =
     [''sql_injection_score'', ''xss_score'', ''path_traversal_score'',
      ''command_injection_score'', ''code_execution_score'', ''overall_malicious_score''] \<and>
   map fst (extract_statistical_features example_lib scalar_message_event) =
     [''message_length'', ''num_special_chars'', ''entropy'', ''num_fields''] \<and>
   map_of (extract_statistical_features example_lib scalar_message_event) ''num_fields'' =
     Some (PInt 0)"
proof -
  have d: "\<not> is_dict (dict_get scalar_message_event ''message'' (PDict []))"
    by (simp add: scalar_message_event_def dict_get_def)
  have e: "extract_features example_lib [] scalar_message_event = ([], [])"
    using d by (rule extract_features_non_dict_message)
  have n: "map_of (extract_statistical_features example_lib scalar_message_event)
             ''num_fields'' = Some (PInt 0)"
    by (simp add: extract_statistical_features_def Let_def scalar_message_event_def
        dict_get_def)
  show ?thesis
    using e n by (simp add: keys_temporal keys_pattern keys_statistical)
qed

lemma map_of_dict_update_other:
  "k \<notin> set (map fst e) \<Longrightarrow> map_of (dict_update d e) k = map_of d k"
  by (simp add: map_of_dict_update map_add_def map_of_eq_None_iff [THEN iffD2] split: option.splits)

lemma temporal_missing:
  assumes "\<not> truthy (dict_get ev ''timestamp'' (PStr []))"
  shows "extract_temporal_features lib ev = temporal_sentinels"
  using assms by (simp add: extract_temporal_features_def)

text \<open>
  C8. For an event whose timestamp is absent or empty (the key is missing, or its value is
  the empty string, \<^verbatim>\<open>None\<close> or any other value Python takes for false), the temporal
  features are hour = -1, day\_of\_week = -1, is\_weekend = 0, is\_business\_hours = 0 and
  is\_night = 0, and these are the values under these names in every non-empty result of
  \<^verbatim>\<open>extract_features\<close>.
\<close>

theorem missing_timestamp_sentinels:
  assumes "\<not> truthy (dict_get ev ''timestamp'' (PStr []))"
  shows "extract_temporal_features lib ev =
           [(''hour'', PInt (- 1)), (''day_of_week'', PInt (- 1)), (''is_weekend'', PInt 0),
            (''is_business_hours'', PInt 0), (''is_night'', PInt 0)] \<and>
         (\<forall>fs cache'. extract_features lib cache ev = (fs, cache') \<and> fs \<noteq> [] \<longrightarrow>
            map_of fs ''hour'' = Some (PInt (- 1)) \<and>
            map_of fs ''day_of_week'' = Some (PInt (- 1)) \<and>
            map_of fs ''is_weekend'' = Some (PInt 0) \<and>
            map_of fs ''is_business_hours'' = Some (PInt 0) \<and>
            map_of fs ''is_night'' = Some (PInt 0))"
proof (intro conjI allI impI)
  show t: "extract_temporal_features lib ev =
           [(''hour'', PInt (- 1)), (''day_of_week'', PInt (- 1)), (''is_weekend'', PInt 0),
            (''is_business_hours'', PInt 0), (''is_night'', PInt 0)]"
    using temporal_missing [OF assms] by (simp add: temporal_sentinels_def)
  fix fs cache'
  assume a: "extract_features lib cache ev = (fs, cache') \<and> fs \<noteq> []"
  obtain r c1 where n: "extract_network_features lib cache ev = (r, c1)"
    by (cases "extract_network_features lib cache ev")
  from a n obtain network where rn: "r = Inr network"
    by (cases r) (auto simp: extract_features_def Let_def)
  from a n rn obtain event where re: "extract_event_features lib ev = Inr event"
    by (cases "extract_event_features lib ev") (auto simp: extract_features_def Let_def)
  have kn: "map fst network = [''ip_address_hash'', ''is_private_ip'', ''ip_reputation_score'',
                   ''is_suspicious_agent'', ''user_agent_length'']"
    using keys_network n rn by blast
  have ke: "map fst event = [''event_id_hash'', ''activity_hash'', ''category_hash'',
                   ''is_failure'', ''is_success'', ''identity_hash'', ''has_identity'']"
    using keys_event re by blast
  have fs: "fs = dict_update (dict_update (dict_update (dict_update (dict_update
              (AList.update ''timestamp'' (dict_get ev ''timestamp'' (PStr []))
                 [(''source'', dict_get ev ''source'' (PStr ''unknown''))])
              (extract_temporal_features lib ev)) network) event)
              (extract_pattern_features lib ev)) (extract_statistical_features lib ev)"
    using a n rn re by (simp add: extract_features_def Let_def)
  have other: "map_of fs k = map_of (dict_update
              (AList.update ''timestamp'' (dict_get ev ''timestamp'' (PStr []))
                 [(''source'', dict_get ev ''source'' (PStr ''unknown''))])
              (extract_temporal_features lib ev)) k"
    if "k \<notin> set (map fst network)" and "k \<notin> set (map fst event)"
      and "k \<notin> set (map fst (extract_pattern_features lib ev))"
      and "k \<notin> set (map fst (extract_statistical_features lib ev))" for k
    using that unfolding fs by (simp add: map_of_dict_update_other del: set_map)
  note ks = kn ke keys_pattern keys_statistical
  show "map_of fs ''hour'' = Some (PInt (- 1))"
    by (simp add: other ks t map_of_dict_update)
  show "map_of fs ''day_of_week'' = Some (PInt (- 1))"
    by (simp add: other ks t map_of_dict_update)
  show "map_of fs ''is_weekend'' = Some (PInt 0)"
    by (simp add: other ks t map_of_dict_update)
  show "map_of fs ''is_business_hours'' = Some (PInt 0)"
    by (simp add: other ks t map_of_dict_update)
  show "map_of fs ''is_night'' = Some (PInt 0)"
    by (simp add: other ks t map_of_dict_update)
qed

theorem missing_timestamp_sentinels_witness:
  "extract_temporal_features example_lib [(''source'', PStr ''aws'')] =
     [(''hour'', PInt (- 1)), (''day_of_week'', PInt (- 1)), (''is_weekend'', PInt 0),
      (''is_business_hours'', PInt 0), (''is_night'', PInt 0)] \<and>
   extract_temporal_features example_lib [(''timestamp'', PStr []), (''source'', PStr ''aws'')] =
     [(''hour'', PInt (- 1)), (''day_of_week'', PInt (- 1)), (''is_weekend'', PInt 0),
      (''is_business_hours'', PInt 0), (''is_night'', PInt 0)] \<and>
   map (map_of (fst (extract_features example_lib []
          [(''timestamp'', PNone), (''source'', PStr ''azure'')])))
     [''hour'', ''day_of_week'', ''is_weekend'', ''is_business_hours'', ''is_night''] =
     [Some (PInt (- 1)), Some (PInt (- 1)), Some (PInt 0), Some (PInt 0), Some (PInt 0)]"
proof -
  let ?e1 = "[(''source'', PStr ''aws'')]"
  let ?e2 = "[(''timestamp'', PStr []), (''source'', PStr ''aws'')]"
  let ?e3 = "[(''timestamp'', PNone), (''source'', PStr ''azure'')]"
  have h1: "\<not> truthy (dict_get ?e1 ''timestamp'' (PStr []))"
    by (simp add: dict_get_def)
  have h2: "\<not> truthy (dict_get ?e2 ''timestamp'' (PStr []))"
    by (simp add: dict_get_def)
  have h3: "\<not> truthy (dict_get ?e3 ''timestamp'' (PStr []))"
    by (simp add: dict_get_def)
  obtain fs c where r: "extract_features example_lib [] ?e3 = (fs, c)"
    by (cases "extract_features example_lib [] ?e3")
  have "fst (extract_features example_lib [] ?e3) \<noteq> []"
    by (rule extract_features_dicts_nonempty) (simp_all add: dict_get_def example_lib_def)
  then have ne: "fs \<noteq> []" by (simp add: r)
  show ?thesis
    using missing_timestamp_sentinels [OF h1, of example_lib]
      missing_timestamp_sentinels [OF h2, of example_lib]
      missing_timestamp_sentinels [OF h3, of example_lib "[]"] r ne
    by simp
qed

section \<open>Properties of the schema reconciliation\<close>

lemma find_append:
  "find P (xs @ ys) = (case find P xs of None \<Rightarrow> find P ys | Some x \<Rightarrow> Some x)"
  by (induction xs) auto

lemma find_None_names:
  "(find (\<lambda>c. col_name c = l) cols = None) = (l \<notin> set (map col_name cols))"
  by (induction cols) auto

lemma add_missing_rows [simp]: "df_rows (add_missing cs df) = df_rows df"
  by (induction cs arbitrary: df) auto

lemma find_add_missing:
  "find (\<lambda>c. col_name c = l) (df_columns (add_missing cs df)) =
     (case find (\<lambda>c. col_name c = l) (df_columns df) of
        Some c \<Rightarrow> Some c
      | None \<Rightarrow> if l \<in> set cs then Some (zero_column (df_rows df) l) else None)"
proof (induction cs arbitrary: df)
  case Nil
  then show ?case by (simp split: option.splits)
next
  case (Cons c cs)
  show ?case
  proof (cases "c \<in> set (map col_name (df_columns df))")
    case True
    then have "find (\<lambda>x. col_name x = c) (df_columns df) \<noteq> None"
      by (simp add: find_None_names)
    with True show ?thesis
      by (auto simp: Cons.IH split: option.splits)
  next
    case False
    then have n: "find (\<lambda>x. col_name x = c) (df_columns df) = None"
      by (simp add: find_None_names)
    show ?thesis
      using False n
      by (auto simp: Cons.IH find_append zero_column_def split: option.splits)
  qed
qed

lemma those_map_total:
  "(\<And>x. x \<in> set xs \<Longrightarrow> f x = Some (g x)) \<Longrightarrow> those (map f xs) = Some (map g xs)"
  by (induction xs) auto

lemma select_add_missing:
  "select_columns reg (add_missing reg nf) =
     Some ((add_missing reg nf)\<lparr>df_columns := map (pick nf) reg\<rparr>)"
proof -
  have "those (map (\<lambda>l. find (\<lambda>c. col_name c = l) (df_columns (add_missing reg nf))) reg)
          = Some (map (pick nf) reg)"
    by (rule those_map_total) (simp add: find_add_missing pick_def split: option.splits)
  then show ?thesis
    by (simp add: select_columns_def)
qed

lemma pick_cell:
  assumes "list_all (\<lambda>c. length (col_values c) = df_rows nf) (df_columns nf)" and "i < df_rows nf"
  shows "replace_inf0 (fillna0 (col_values (pick nf l) ! i)) =
     (case find (\<lambda>c. col_name c = l) (df_columns nf) of
        None \<Rightarrow> Fin 0 | Some c \<Rightarrow> replace_inf0 (fillna0 (col_values c ! i)))"
  using assms by (simp add: pick_def zero_column_def split: option.splits)

lemma values_cleaned:
  "df_values (map_cells g (map_cells f df)) =
     map (\<lambda>i. map (\<lambda>c. map (g \<circ> f) (col_values c) ! i) (df_columns df)) [0..<df_rows df]"
  by (simp add: df_values_def map_cells_def comp_def)

lemma wf_numeric:
  "wf_frame df \<Longrightarrow>
     list_all (\<lambda>c. length (col_values c) = df_rows df)
       (df_columns (drop_columns ex (select_dtypes_number df)))"
  by (simp add: wf_frame_def drop_columns_def select_dtypes_number_def list_all_iff)

text \<open>
  C2, as the code has it. At inference time, with a registered list of feature columns that
  is not empty and a frame that is not empty, \<^verbatim>\<open>prepare_for_ml\<close> returns one row per row of
  the frame, each in the order of the registered list: under a registered name the cell of
  the frame's numeric column of that name (NaN and the infinities replaced by 0), and 0
  when the frame has no such column; the columns the list does not name are dropped. The
  registered list is unchanged.
\<close>

theorem prepare_for_ml_reconciles:
  assumes "wf_frame df" and "\<not> df_empty df"
    and "feature_columns p = Some registry" and "registry \<noteq> []"
  shows "prepare_for_ml p df False = (reconciled registry df, p)"
proof -
  let ?nf = "drop_columns [''timestamp''] (select_dtypes_number df)"
  have rows: "df_rows ?nf = df_rows df"
    by (simp add: drop_columns_def select_dtypes_number_def)
  have lens: "list_all (\<lambda>c. length (col_values c) = df_rows ?nf) (df_columns ?nf)"
    using wf_numeric [OF assms(1)] rows by simp
  have len_pick: "length (col_values (pick ?nf l)) = df_rows df" for l
  proof (cases "find (\<lambda>c. col_name c = l) (df_columns ?nf)")
    case None
    then show ?thesis by (simp add: pick_def zero_column_def rows)
  next
    case (Some c)
    then have "c \<in> set (df_columns ?nf)"
      by (auto simp: find_Some_iff)
    with lens have "length (col_values c) = df_rows ?nf"
      by (simp add: list_all_iff)
    with Some show ?thesis by (simp add: pick_def rows)
  qed
  have cell: "map (replace_inf0 \<circ> fillna0) (col_values (pick ?nf l)) ! i = reconciled_cell df i l"
    if "i < df_rows df" for i l
  proof -
    have "map (replace_inf0 \<circ> fillna0) (col_values (pick ?nf l)) ! i =
          replace_inf0 (fillna0 (col_values (pick ?nf l) ! i))"
      using that len_pick [of l] by simp
    also have "\<dots> = reconciled_cell df i l"
      using pick_cell [OF lens, of i l] that rows by (simp add: reconciled_cell_def)
    finally show ?thesis .
  qed
  have vals: "df_values (map_cells replace_inf0 (map_cells fillna0
                ((add_missing registry ?nf)\<lparr>df_columns := map (pick ?nf) registry\<rparr>)))
              = reconciled registry df"
    unfolding values_cleaned reconciled_def
    by (rule map_cong) (simp_all add: rows cell)
  show ?thesis
    using assms(2,3,4) vals
    by (simp add: prepare_for_ml_def Let_def select_add_missing)
qed

text \<open>An empty frame is answered with the empty array, whatever is registered.\<close>

lemma prepare_for_ml_empty_frame:
  "df_empty df \<Longrightarrow> prepare_for_ml p df training = ([], p)"
  by (simp add: prepare_for_ml_def)

theorem prepare_for_ml_reconciles_witness:
  "prepare_for_ml \<lparr>feature_columns = Some [''a'', ''b'', ''c'']\<rparr> frame_a5_c7_d9 False =
     ([[Fin 5, Fin 0, Fin 7]], \<lparr>feature_columns = Some [''a'', ''b'', ''c'']\<rparr>)"
proof -
  have w: "wf_frame frame_a5_c7_d9"
    by (simp add: wf_frame_def frame_a5_c7_d9_def)
  have e: "\<not> df_empty frame_a5_c7_d9"
    by (simp add: df_empty_def frame_a5_c7_d9_def)
  have r: "reconciled [''a'', ''b'', ''c''] frame_a5_c7_d9 = [[Fin 5, Fin 0, Fin 7]]"
    by (simp add: reconciled_def reconciled_cell_def frame_a5_c7_d9_def drop_columns_def
        select_dtypes_number_def)
  show ?thesis
    using prepare_for_ml_reconciles [OF w e, of "\<lparr>feature_columns = Some [''a'', ''b'', ''c'']\<rparr>"
        "[''a'', ''b'', ''c'']"] r
    by simp
qed

text \<open>
  The claim as stated fails for the empty registered list. Training on a frame without a
  numeric column registers the empty list; the inference call that follows tests
  \<^verbatim>\<open>if self.feature_columns\<close>, which is false for the empty list, and reconciles nothing:
  the produced columns a, c and d all reach the output, where the claim has a row of
  width 0.
\<close>

theorem prepare_for_ml_empty_registry_counterexample:
  "(let (X0, p1) = prepare_for_ml \<lparr>feature_columns = None\<rparr> frame_source_only True;
        (X1, p2) = prepare_for_ml p1 frame_a5_c7_d9 False
    in feature_columns p1 = Some [] \<and> X1 = [[Fin 5, Fin 7, Fin 9]] \<and>
       X1 \<noteq> reconciled [] frame_a5_c7_d9)"
  by (simp add: prepare_for_ml_def df_empty_def frame_source_only_def frame_a5_c7_d9_def
      drop_columns_def select_dtypes_number_def df_values_def map_cells_def reconciled_def)

section \<open>Properties of the ingestion buffer\<close>

lemma q_put_Some: "\<not> q_full q \<Longrightarrow> q_put q e = Some (q\<lparr>items := items q @ [e]\<rparr>)"
  by (simp add: q_put_def)

lemma push_not_full:
  "length (items (event_queue c)) < maxsize (event_queue c) \<Longrightarrow>
     push c e = Some (c\<lparr>event_queue := (event_queue c)\<lparr>items := items (event_queue c) @ [e]\<rparr>\<rparr>)"
  by (simp add: push_def q_put_def q_full_def)

text \<open>
  Run by one thread alone, the test and the \<^verbatim>\<open>put\<close> never wait: the \<^verbatim>\<open>put\<close> is reached
  only on a queue that is not full.
\<close>

lemma push_never_blocks: "push c e \<noteq> None"
  by (simp add: push_def q_put_def)

lemma push_all_never_blocks: "push_all c es \<noteq> None"
proof (induction es arbitrary: c)
  case Nil
  then show ?case by simp
next
  case (Cons e es)
  obtain c' where "push c e = Some c'"
    using push_never_blocks [of c e] by auto
  then show ?case using Cons.IH by simp
qed

lemma push_size:
  "push c e = Some c' \<Longrightarrow> 0 < maxsize (event_queue c) \<Longrightarrow>
     maxsize (event_queue c') = maxsize (event_queue c) \<and>
     (length (items (event_queue c)) \<le> maxsize (event_queue c) \<longrightarrow>
      length (items (event_queue c')) \<le> maxsize (event_queue c'))"
  by (auto simp: push_def q_put_def q_full_def split: if_splits)

lemma push_all_fits:
  "length (items (event_queue c)) + length es \<le> maxsize (event_queue c) \<Longrightarrow>
     push_all c es = Some (c\<lparr>event_queue := (event_queue c)\<lparr>items := items (event_queue c) @ es\<rparr>\<rparr>)"
proof (induction es arbitrary: c)
  case Nil
  then show ?case by simp
next
  case (Cons e es)
  let ?c' = "c\<lparr>event_queue := (event_queue c)\<lparr>items := items (event_queue c) @ [e]\<rparr>\<rparr>"
  have p: "push c e = Some ?c'"
    using Cons.prems by (simp add: push_not_full)
  have "push_all ?c' es =
      Some (?c'\<lparr>event_queue := (event_queue ?c')\<lparr>items := items (event_queue ?c') @ es\<rparr>\<rparr>)"
    by (rule Cons.IH) (use Cons.prems in simp)
  then show ?case by (simp add: p)
qed

lemma push_full:
  "0 < maxsize (event_queue c) \<Longrightarrow> length (items (event_queue c)) = maxsize (event_queue c) \<Longrightarrow>
     push c e = Some (c\<lparr>dropped := dropped c @ [e]\<rparr>)"
  by (simp add: push_def q_full_def)

lemma push_all_append:
  "push_all c (es @ fs) = (case push_all c es of None \<Rightarrow> None | Some c' \<Rightarrow> push_all c' fs)"
  by (induction es arbitrary: c) (auto split: option.splits)

text \<open>
  One producer alone pushing \<open>C + 1\<close> events onto an empty queue of capacity \<open>C\<close>: the
  queue holds the first \<open>C\<close> events and the last one is dropped with a warning.
\<close>

lemma backpressure:
  assumes "0 < C" and "length es = C"
  shows "push_all \<lparr>event_queue = \<lparr>maxsize = C, items = []\<rparr>, dropped = []\<rparr> (es @ [e]) =
           Some \<lparr>event_queue = \<lparr>maxsize = C, items = es\<rparr>, dropped = [e]\<rparr>"
proof -
  let ?c = "\<lparr>event_queue = \<lparr>maxsize = C, items = []\<rparr>, dropped = []\<rparr>"
  have "push_all ?c es = Some \<lparr>event_queue = \<lparr>maxsize = C, items = es\<rparr>, dropped = []\<rparr>"
    using push_all_fits [of ?c es] assms by simp
  then show ?thesis
    using assms by (simp add: push_all_append push_full)
qed

lemma step_size:
  "step s a = Some s' \<Longrightarrow> 0 < maxsize (event_queue (coll s)) \<Longrightarrow>
     maxsize (event_queue (coll s')) = maxsize (event_queue (coll s)) \<and>
     (length (items (event_queue (coll s))) \<le> maxsize (event_queue (coll s)) \<longrightarrow>
      length (items (event_queue (coll s'))) \<le> maxsize (event_queue (coll s')))"
proof (cases a)
  case (Test p e)
  assume "step s a = Some s'" and "0 < maxsize (event_queue (coll s))"
  with Test show ?thesis
    by (cases p; cases "pc_of s p") (auto split: if_splits)
next
  case (Put p)
  assume "step s a = Some s'" and "0 < maxsize (event_queue (coll s))"
  with Put show ?thesis
    by (cases p; cases "pc_of s p")
      (auto simp: q_put_def q_full_def split: if_splits option.splits)
next
  case Get
  assume "step s a = Some s'" and "0 < maxsize (event_queue (coll s))"
  with Get show ?thesis
    by (auto simp: q_get_nowait_def split: list.splits option.splits)
qed

lemma run_size:
  "run s acts = Some s' \<Longrightarrow> 0 < maxsize (event_queue (coll s)) \<Longrightarrow>
     length (items (event_queue (coll s))) \<le> maxsize (event_queue (coll s)) \<Longrightarrow>
     length (items (event_queue (coll s'))) \<le> maxsize (event_queue (coll s')) \<and>
     maxsize (event_queue (coll s')) = maxsize (event_queue (coll s))"
proof (induction acts arbitrary: s)
  case Nil
  then show ?case by simp
next
  case (Cons a acts)
  then obtain s1 where s1: "step s a = Some s1" and r: "run s1 acts = Some s'"
    by (auto split: option.splits)
  from step_size [OF s1 Cons.prems(2)] Cons.prems(3)
  have "length (items (event_queue (coll s1))) \<le> maxsize (event_queue (coll s1))"
    and m: "maxsize (event_queue (coll s1)) = maxsize (event_queue (coll s))"
    by simp_all
  with Cons.IH [OF r] Cons.prems(2) show ?case by simp
qed

text \<open>Whatever the schedule of the two producers and the consumer, the queue never holds more
  than its capacity.\<close>

lemma occupancy_bounded:
  "run init_system acts = Some s \<Longrightarrow> length (items (event_queue (coll s))) \<le> 10000"
  using run_size [of init_system acts s]
  by (simp add: init_system_def init_collector_def)

lemma run_append:
  "run s (as @ bs) = (case run s as of None \<Rightarrow> None | Some s' \<Rightarrow> run s' bs)"
  by (induction as arbitrary: s) (auto split: option.splits)

lemma test_put_aws:
  assumes "aws_pc s = Idle"
    and "length (items (event_queue (coll s))) < maxsize (event_queue (coll s))"
  shows "run s [Test AWS e, Put AWS] =
     Some (s\<lparr>coll := (coll s)\<lparr>event_queue :=
             (event_queue (coll s))\<lparr>items := items (event_queue (coll s)) @ [e]\<rparr>\<rparr>\<rparr>)"
  using assms by (simp add: q_full_def q_put_def)

lemma run_fill_schedule:
  assumes "aws_pc s = Idle"
    and "length (items (event_queue (coll s))) + n \<le> maxsize (event_queue (coll s))"
  shows "run s (fill_schedule f n) =
     Some (s\<lparr>coll := (coll s)\<lparr>event_queue :=
             (event_queue (coll s))\<lparr>items := items (event_queue (coll s)) @ map f [0..<n]\<rparr>\<rparr>\<rparr>)"
  using assms(2)
proof (induction n)
  case 0
  then show ?case by (simp add: fill_schedule_def)
next
  case (Suc n)
  let ?s = "s\<lparr>coll := (coll s)\<lparr>event_queue :=
             (event_queue (coll s))\<lparr>items := items (event_queue (coll s)) @ map f [0..<n]\<rparr>\<rparr>\<rparr>"
  have f: "fill_schedule f (Suc n) = fill_schedule f n @ [Test AWS (f n), Put AWS]"
    by (simp add: fill_schedule_def)
  have r: "run s (fill_schedule f n) = Some ?s"
    using Suc by simp
  have i: "aws_pc ?s = Idle"
    using assms(1) by simp
  have l: "length (items (event_queue (coll ?s))) < maxsize (event_queue (coll ?s))"
    using Suc.prems by simp
  show ?case
    unfolding f run_append r
    using test_put_aws [OF i l, of "f n"] by simp
qed

text \<open>
  C4. With the two collection threads the test and the \<^verbatim>\<open>put\<close> are not one step. After
  the AWS thread has put 9999 events, both threads pass the test of line 73 while one slot
  is free; the AWS thread puts its event and fills the queue; the Azure thread is then
  inside \<^verbatim>\<open>put\<close> on a full queue of 10000 events, and waits there until the consumer
  takes an event: the producer is blocked, and its event is neither stored nor dropped
  with a warning.
\<close>

theorem producer_blocks_on_full_queue:
  "run init_system race_schedule =
     Some \<lparr> coll = \<lparr> event_queue = \<lparr>maxsize = 10000, items = [0..<10000]\<rparr>, dropped = [] \<rparr>,
            aws_pc = Idle, azure_pc = Checked 10000 \<rparr> \<and>
   blocked \<lparr> coll = \<lparr> event_queue = \<lparr>maxsize = 10000, items = [0..<10000]\<rparr>, dropped = [] \<rparr>,
            aws_pc = Idle, azure_pc = Checked 10000 \<rparr> Azure"
proof -
  let ?s0 = "init_system :: nat system"
  let ?s1 = "\<lparr> coll = \<lparr> event_queue = \<lparr>maxsize = 10000, items = map (\<lambda>i. i) [0..<9999]\<rparr>,
                dropped = [] \<rparr>, aws_pc = Idle, azure_pc = Idle \<rparr> :: nat system"
  have i: "aws_pc ?s0 = Idle"
    by (simp add: init_system_def)
  have l: "length (items (event_queue (coll ?s0))) + 9999 \<le> maxsize (event_queue (coll ?s0))"
    by (simp add: init_system_def init_collector_def)
  have fill: "run ?s0 (fill_schedule (\<lambda>i. i) 9999) = Some ?s1"
    using run_fill_schedule [OF i l, of "\<lambda>i. i"]
    by (simp add: init_system_def init_collector_def)
  have up: "[0..<9999] @ [9999] = [0..<10000]"
  proof -
    have "[0..<Suc 9999] = [0..<9999] @ [9999]" by (rule upt_Suc_append) simp
    then show ?thesis by simp
  qed
  have race: "run ?s1 [Test AWS 9999, Test Azure 10000, Put AWS] =
     Some \<lparr> coll = \<lparr> event_queue = \<lparr>maxsize = 10000, items = [0..<10000]\<rparr>, dropped = [] \<rparr>,
            aws_pc = Idle, azure_pc = Checked 10000 \<rparr>"
    by (simp add: q_full_def q_put_def up)
  have b: "blocked \<lparr> coll = \<lparr> event_queue = \<lparr>maxsize = 10000, items = [0..<10000]\<rparr>,
             dropped = [] \<rparr>, aws_pc = Idle, azure_pc = Checked 10000 \<rparr> Azure"
    by (simp add: blocked_def q_put_def q_full_def)
  show ?thesis
    unfolding race_schedule_def run_append fill
    using race b by simp
qed

section \<open>Properties of the alert ids\<close>

text \<open>Evaluation of MD5 on a literal string, by rewriting.\<close>

lemma md5_rounds_numeral:
  "md5_rounds M i (numeral n) st = md5_rounds M (Suc i) (pred_numeral n) (md5_step M st i)"
  by (subst numeral_eq_Suc) (rule md5_rounds.simps)

lemma le_bytes_numeral:
  "le_bytes (numeral k) n = (n mod 256) # le_bytes (pred_numeral k) (n div 256)"
  by (subst numeral_eq_Suc) (rule le_bytes.simps)

lemma md5_words_numeral:
  "md5_words (numeral k) bs = le_word (take 4 bs) # md5_words (pred_numeral k) (drop 4 bs)"
  by (subst numeral_eq_Suc) (rule md5_words.simps)

lemma md5_blocks_numeral:
  "md5_blocks (numeral k) bs = md5_words 16 (take 64 bs) # md5_blocks (pred_numeral k) (drop 64 bs)"
  by (subst numeral_eq_Suc) (rule md5_blocks.simps)

lemma le_word_zeros: "le_word (replicate n 0) = 0"
  by (induction n) auto

lemmas md5_eval = python_md5_def hexdigest_def md5_digest_def md5_pad_def md5_chunk_def
  md5_F_def md5_g_def add32_def not32_def rotl32_def md5_K_def md5_s_def hex_char_def Let_def
  md5_rounds_numeral le_bytes_numeral md5_words_numeral md5_blocks_numeral le_word_zeros

text \<open>The test vector of RFC 1321, and the digests of two id strings.\<close>

lemma python_md5_abc: "python_md5 ''abc'' = ''900150983cd24fb0d6963f7d28e17f72''"
  by (simp add: md5_eval)

lemma python_md5_first:
  "python_md5 ''2024-01-01T00:00:01.787859_0'' = ''67b9d10158b47cca49b82833bfc90749''"
  by (simp add: md5_eval)

lemma python_md5_second:
  "python_md5 ''2024-01-01T00:01:17.943931_1'' = ''67b9d10158b4c1f4fe7bae5b081dfdc0''"
  by (simp add: md5_eval)

lemma generate_alert_history:
  "alert_history (snd (generate_alert lib cfg clock m ev ti sev)) =
     alert_history m @ [fst (generate_alert lib cfg clock m ev ti sev)]"
  by (simp add: generate_alert_def generate_alert_id_def utcnow_isoformat_def Let_def
      split: prod.splits)

lemma generate_alert_fst_id:
  "alert_id (fst (generate_alert lib cfg clock m ev ti sev)) =
     take 12 (python_md5 (unique_str (clock (ticks m)) (length (alert_history m))))"
  by (simp add: generate_alert_def generate_alert_id_def utcnow_isoformat_def Let_def
      split: prod.splits)

lemma generate_alert_ticks:
  "ticks (snd (generate_alert lib cfg clock m ev ti sev)) = ticks m + 2"
  by (simp add: generate_alert_def generate_alert_id_def utcnow_isoformat_def Let_def
      split: prod.splits)

lemma generate_alert_length:
  "length (alert_history (snd (generate_alert lib cfg clock m ev ti sev))) =
     Suc (length (alert_history m))"
  by (simp add: generate_alert_history)

lemma generate_many_history:
  "\<exists>new. alert_history (generate_many lib cfg clock m xs) = alert_history m @ new \<and>
          length new = length xs"
proof (induction xs arbitrary: m)
  case Nil
  then show ?case by simp
next
  case (Cons x xs)
  obtain ev ti where x: "x = (ev, ti)" by (cases x)
  let ?m = "snd (generate_alert lib cfg clock m ev ti None)"
  obtain new where n: "alert_history (generate_many lib cfg clock ?m xs) = alert_history ?m @ new"
    and l: "length new = length xs"
    using Cons.IH [of ?m] by blast
  have "alert_history (generate_many lib cfg clock m (x # xs)) =
          alert_history m @ (fst (generate_alert lib cfg clock m ev ti None) # new)"
    by (simp add: x n generate_alert_history)
  with l show ?case by auto
qed

text \<open>
  The ids of alerts generated one after another: the \<open>k\<close>-th new alert gets the first 12
  hexadecimal digits of the MD5 digest of the clock's reading at its creation, an
  underscore and its position in the history.
\<close>

lemma generate_many_ids:
  "\<exists>new. alert_history (generate_many lib cfg clock m xs) = alert_history m @ new \<and>
     map alert_id new =
       map (\<lambda>k. take 12 (python_md5
              (unique_str (clock (ticks m + 2 * k)) (length (alert_history m) + k))))
         [0..<length xs]"
proof (induction xs arbitrary: m)
  case Nil
  then show ?case by simp
next
  case (Cons x xs)
  obtain ev ti where x: "x = (ev, ti)" by (cases x)
  let ?a = "fst (generate_alert lib cfg clock m ev ti None)"
  let ?m = "snd (generate_alert lib cfg clock m ev ti None)"
  let ?f = "\<lambda>m k. take 12 (python_md5
              (unique_str (clock (ticks m + 2 * k)) (length (alert_history m) + k)))"
  obtain new where n: "alert_history (generate_many lib cfg clock ?m xs) = alert_history ?m @ new"
    and i: "map alert_id new = map (?f ?m) [0..<length xs]"
    using Cons.IH [of ?m] by blast
  have shift: "?f ?m k = ?f m (Suc k)" for k
    by (simp add: generate_alert_ticks generate_alert_length)
  have "map (?f m) [0..<length (x # xs)] = ?f m 0 # map (\<lambda>k. ?f m (Suc k)) [0..<length xs]"
    by (simp add: upt_conv_Cons map_Suc_upt [symmetric] del: upt_Suc)
  also have "\<dots> = alert_id ?a # map alert_id new"
    by (simp add: i shift generate_alert_fst_id)
  finally have ids: "map alert_id (?a # new) = map (?f m) [0..<length (x # xs)]"
    by simp
  have "alert_history (generate_many lib cfg clock m (x # xs)) = alert_history m @ (?a # new)"
    by (simp add: x n generate_alert_history)
  with ids show ?case by blast
qed

lemma unique_str_first: "unique_str (collision_clock 0) 0 = ''2024-01-01T00:00:01.787859_0''"
  by (simp add: unique_str_def collision_clock_def str_nat.simps digit_char_def)

lemma unique_str_second: "unique_str (collision_clock 2) (Suc 0) = ''2024-01-01T00:01:17.943931_1''"
  by (simp add: unique_str_def collision_clock_def str_nat.simps digit_char_def)

text \<open>
  C9. The id keeps 48 bits of the digest, and two different id strings can agree on them.
  With the clock reading 00:00:01.787859 at the first alert and 00:01:17.943931 at the
  second, the strings \<^verbatim>\<open>2024-01-01T00:00:01.787859_0\<close> and
  \<^verbatim>\<open>2024-01-01T00:01:17.943931_1\<close> both give the id \<^verbatim>\<open>67b9d10158b4\<close>: the 10000 alerts
  generated one after another do not have pairwise distinct ids.
\<close>

theorem alert_ids_collide:
  "length (alert_history (generate_many example_lib default_config collision_clock init_manager
      (replicate 10000 ([(''source'', PStr ''aws'')], example_result)))) = 10000 \<and>
   map alert_id (take 2 (alert_history (generate_many example_lib default_config collision_clock
      init_manager (replicate 10000 ([(''source'', PStr ''aws'')], example_result))))) =
     [''67b9d10158b4'', ''67b9d10158b4''] \<and>
   \<not> distinct (map alert_id (alert_history (generate_many example_lib default_config
      collision_clock init_manager
      (replicate 10000 ([(''source'', PStr ''aws'')], example_result)))))"
proof -
  let ?x = "([(''source'', PStr ''aws'')], example_result)"
  let ?gen = "\<lambda>m. generate_alert example_lib default_config collision_clock m
                 [(''source'', PStr ''aws'')] example_result None"
  let ?m1 = "snd (?gen init_manager)"
  let ?m2 = "snd (?gen ?m1)"
  have r: "replicate 10000 ?x = ?x # ?x # replicate 9998 ?x"
  proof -
    have "(10000::nat) = Suc (Suc 9998)" by simp
    then show ?thesis by (simp only: replicate_Suc)
  qed
  have h1: "alert_history ?m1 = [fst (?gen init_manager)]"
    by (simp add: generate_alert_history init_manager_def)
  have h2: "alert_history ?m2 = [fst (?gen init_manager), fst (?gen ?m1)]"
    by (simp add: generate_alert_history init_manager_def)
  have t1: "ticks ?m1 = 2"
    by (simp add: generate_alert_ticks init_manager_def)
  have i1: "alert_id (fst (?gen init_manager)) = ''67b9d10158b4''"
    unfolding generate_alert_fst_id
    by (simp add: init_manager_def unique_str_first python_md5_first)
  have i2: "alert_id (fst (?gen ?m1)) = ''67b9d10158b4''"
    unfolding generate_alert_fst_id t1 h1
    by (simp add: unique_str_second python_md5_second)
  obtain new where n: "alert_history (generate_many example_lib default_config collision_clock
        ?m2 (replicate 9998 ?x)) = alert_history ?m2 @ new"
    and l: "length new = length (replicate 9998 ?x)"
    using generate_many_history [of example_lib default_config collision_clock ?m2
        "replicate 9998 ?x"] by blast
  have all: "alert_history (generate_many example_lib default_config collision_clock init_manager
      (replicate 10000 ?x)) = fst (?gen init_manager) # fst (?gen ?m1) # new"
    unfolding r by (simp add: n h2)
  show ?thesis
    unfolding all using l by (simp add: i1 i2)
qed

end
